theory Spec2Isabelle
  imports Main "HOL-Library.Multiset" "HOL-Library.Product_Lexorder"
begin

section \<open>Reconciliation store: scripts/db.py and scripts/import\_existing.py\<close>

text \<open>
  The store is the SQLite database of \<^verbatim>\<open>SCHEMA\<close>. Each table is the list of its rows in
  insertion order, next to the counter that \<^verbatim>\<open>AUTOINCREMENT\<close> keeps for it. Only the
  primary keys of \<^verbatim>\<open>seasons\<close> and \<^verbatim>\<open>categories\<close> are kept: the operations below use
  them for the foreign keys of \<^verbatim>\<open>groups\<close> and nothing else. A nullable column is an
  \<open>option\<close>.
\<close>

datatype db_error = IntegrityError

record team_row =
  t_id :: nat
  t_name :: string
  t_shield :: "string option"

record group_row =
  g_id :: nat
  g_season_id :: nat
  g_category_id :: nat
  g_code :: string
  g_name :: "string option"
  g_full_name :: "string option"
  g_phase :: "string option"
  g_island :: "string option"
  g_url :: "string option"
  g_current_jornada :: "string option"

record standing_row =
  st_id :: nat
  st_group_id :: nat
  st_team_id :: nat
  st_position :: int
  st_points :: int
  st_played :: int
  st_won :: int
  st_drawn :: int
  st_lost :: int
  st_gf :: int
  st_gc :: int
  st_gd :: int

record match_row =
  m_id :: nat
  m_group_id :: nat
  m_jornada :: string
  m_date :: "string option"
  m_time :: "string option"
  m_home_team_id :: nat
  m_away_team_id :: nat
  m_home_score :: "int option"
  m_away_score :: "int option"
  m_venue :: "string option"

record store =
  season_ids :: "nat list"
  category_ids :: "nat list"
  groups :: "group_row list"
  groups_seq :: nat
  teams :: "team_row list"
  teams_seq :: nat
  standings :: "standing_row list"
  standings_seq :: nat
  matches :: "match_row list"
  matches_seq :: nat

text \<open>
  \<^verbatim>\<open>INTEGER PRIMARY KEY AUTOINCREMENT\<close>: the new rowid is one more than the largest
  rowid the table has ever held, which SQLite takes as the larger of the table's counter
  in \<^verbatim>\<open>sqlite_sequence\<close> and the largest rowid now in the table.
\<close>

definition next_rowid :: "nat list \<Rightarrow> nat \<Rightarrow> nat" where
  "next_rowid ids seq = Suc (fold max ids seq)"

text \<open>Python truthiness of an optional string: \<^verbatim>\<open>None\<close> and \<^verbatim>\<open>""\<close> are false.\<close>

definition truthy :: "string option \<Rightarrow> bool" where
  "truthy v = (case v of None \<Rightarrow> False | Some x \<Rightarrow> x \<noteq> [])"

subsection \<open>get\_or\_create\_team\<close>

text \<open>\<^verbatim>\<open>SELECT id FROM teams WHERE name=?\<close> followed by \<^verbatim>\<open>fetchone()\<close>.\<close>

definition find_team :: "store \<Rightarrow> string \<Rightarrow> team_row option" where
  "find_team s n = find (\<lambda>t. t_name t = n) (teams s)"

text \<open>\<^verbatim>\<open>UPDATE teams SET shield_filename=? WHERE id=?\<close>\<close>

definition update_shield :: "nat \<Rightarrow> string option \<Rightarrow> team_row list \<Rightarrow> team_row list" where
  "update_shield i sf ts = map (\<lambda>t. if t_id t = i then t\<lparr>t_shield := sf\<rparr> else t) ts"

text \<open>
  \<^verbatim>\<open>
  def get_or_create_team(conn, name, shield_filename=None):
      cur = conn.execute("SELECT id FROM teams WHERE name=?", (name,))
      row = cur.fetchone()
      if row:
          if shield_filename:
              conn.execute("UPDATE teams SET shield_filename=? WHERE id=?", (shield_filename, row[0]))
          return row[0]
      cur = conn.execute("INSERT INTO teams (name, shield_filename) VALUES (?,?)", (name, shield_filename))
      return cur.lastrowid
  \<close>
  The result is the identifier and the store after the call.
\<close>

definition get_or_create_team :: "store \<Rightarrow> string \<Rightarrow> string option \<Rightarrow> nat \<times> store" where
  "get_or_create_team s n sf =
     (case find_team s n of
        Some row \<Rightarrow>
          (t_id row,
           if truthy sf then s\<lparr>teams := update_shield (t_id row) sf (teams s)\<rparr> else s)
      | None \<Rightarrow>
          (let i = next_rowid (map t_id (teams s)) (teams_seq s)
           in (i, s\<lparr>teams := teams s @ [\<lparr>t_id = i, t_name = n, t_shield = sf\<rparr>],
                     teams_seq := i\<rparr>)))"

definition rows_named :: "string \<Rightarrow> store \<Rightarrow> team_row list" where
  "rows_named n s = filter (\<lambda>t. t_name t = n) (teams s)"

subsection \<open>get\_or\_create\_group\<close>

text \<open>
  The keyword arguments of \<^verbatim>\<open>get_or_create_group\<close> are a dictionary from column names
  to values. Both callers pass the six columns below; a key that is absent from the
  dictionary is \<open>None\<close>, a key passed as \<^verbatim>\<open>None\<close> is \<open>Some None\<close>.
\<close>

datatype group_col = Name | Full_name | Phase | Island | Url | Current_jornada

type_synonym kwargs = "group_col \<Rightarrow> string option option"

definition all_cols :: "group_col list" where
  "all_cols = [Name, Full_name, Phase, Island, Url, Current_jornada]"

definition get_col :: "group_col \<Rightarrow> group_row \<Rightarrow> string option" where
  "get_col c g =
     (case c of Name \<Rightarrow> g_name g | Full_name \<Rightarrow> g_full_name g | Phase \<Rightarrow> g_phase g
      | Island \<Rightarrow> g_island g | Url \<Rightarrow> g_url g | Current_jornada \<Rightarrow> g_current_jornada g)"

text \<open>
  \<^verbatim>\<open>SELECT id FROM groups WHERE season_id=? AND category_id=? AND code=?\<close> followed by
  \<^verbatim>\<open>fetchone()\<close>.
\<close>

definition find_group :: "store \<Rightarrow> nat \<Rightarrow> nat \<Rightarrow> string \<Rightarrow> group_row option" where
  "find_group s sid cid code =
     find (\<lambda>g. g_season_id g = sid \<and> g_category_id g = cid \<and> g_code g = code) (groups s)"

text \<open>\<^verbatim>\<open>updates = {k: v for k, v in kwargs.items() if v is not None}\<close>\<close>

definition updates :: "kwargs \<Rightarrow> group_col \<Rightarrow> string option" where
  "updates kw c = (case kw c of Some (Some v) \<Rightarrow> Some v | _ \<Rightarrow> None)"

text \<open>One \<^verbatim>\<open>k=?\<close> of the \<^verbatim>\<open>SET\<close> list: the column takes the value when the key is there.\<close>

definition set_value :: "string option \<Rightarrow> string option \<Rightarrow> string option" where
  "set_value u old = (case u of Some v \<Rightarrow> Some v | None \<Rightarrow> old)"

definition apply_updates :: "(group_col \<Rightarrow> string option) \<Rightarrow> group_row \<Rightarrow> group_row" where
  "apply_updates u g =
     g\<lparr>g_name := set_value (u Name) (g_name g),
       g_full_name := set_value (u Full_name) (g_full_name g),
       g_phase := set_value (u Phase) (g_phase g),
       g_island := set_value (u Island) (g_island g),
       g_url := set_value (u Url) (g_url g),
       g_current_jornada := set_value (u Current_jornada) (g_current_jornada g)\<rparr>"

text \<open>The value an \<^verbatim>\<open>INSERT\<close> stores in a column: \<^verbatim>\<open>NULL\<close> when the column is not listed.\<close>

definition inserted_value :: "kwargs \<Rightarrow> group_col \<Rightarrow> string option" where
  "inserted_value kw c = (case kw c of Some v \<Rightarrow> v | None \<Rightarrow> None)"

text \<open>
  \<^verbatim>\<open>
  def get_or_create_group(conn, season_id, category_id, code, **kwargs):
      cur = conn.execute(
          "SELECT id FROM groups WHERE season_id=? AND category_id=? AND code=?",
          (season_id, category_id, code))
      row = cur.fetchone()
      if row:
          gid = row[0]
          updates = {k: v for k, v in kwargs.items() if v is not None}
          if updates:
              sets = ", ".join(f"{k}=?" for k in updates)
              conn.execute(f"UPDATE groups SET {sets} WHERE id=?", (*updates.values(), gid))
          return gid
      cols = ["season_id", "category_id", "code"] + list(kwargs.keys())
      vals = [season_id, category_id, code] + list(kwargs.values())
      placeholders = ",".join("?" * len(cols))
      cur = conn.execute(f"INSERT INTO groups ({','.join(cols)}) VALUES ({placeholders})", vals)
      return cur.lastrowid
  \<close>
  The connection runs with \<^verbatim>\<open>PRAGMA foreign_keys=ON\<close>, so the \<^verbatim>\<open>INSERT\<close> raises when the
  season or the category does not exist.
\<close>

definition get_or_create_group ::
  "store \<Rightarrow> nat \<Rightarrow> nat \<Rightarrow> string \<Rightarrow> kwargs \<Rightarrow> db_error + (nat \<times> store)" where
  "get_or_create_group s sid cid code kw =
     (case find_group s sid cid code of
        Some row \<Rightarrow>
          (let gid = g_id row; u = updates kw
           in Inr (gid,
                if list_ex (\<lambda>c. u c \<noteq> None) all_cols
                then s\<lparr>groups := map (\<lambda>g. if g_id g = gid then apply_updates u g else g) (groups s)\<rparr>
                else s))
      | None \<Rightarrow>
          (if sid \<in> set (season_ids s) \<and> cid \<in> set (category_ids s)
           then (let i = next_rowid (map g_id (groups s)) (groups_seq s)
                 in Inr (i, s\<lparr>groups := groups s @
                              [\<lparr>g_id = i, g_season_id = sid, g_category_id = cid, g_code = code,
                                g_name = inserted_value kw Name,
                                g_full_name = inserted_value kw Full_name,
                                g_phase = inserted_value kw Phase,
                                g_island = inserted_value kw Island,
                                g_url = inserted_value kw Url,
                                g_current_jornada = inserted_value kw Current_jornada\<rparr>],
                            groups_seq := i\<rparr>))
           else Inl IntegrityError))"

subsection \<open>Match upsert: INSERT OR IGNORE INTO matches\<close>

text \<open>
  A row of a group's \<^verbatim>\<open>matches\<close> array in a category file,
  \<^verbatim>\<open>[date, time, home, away, hs|None, as|None, venue|None]\<close>, and a row of the history file,
  \<^verbatim>\<open>[date, home, away, hs, as]\<close>.
\<close>

record cur_match =
  cm_date :: "string option"
  cm_time :: "string option"
  cm_home :: string
  cm_away :: string
  cm_hs :: "int option"
  cm_as :: "int option"
  cm_venue :: "string option"

record hist_match =
  hm_date :: string
  hm_home :: string
  hm_away :: string
  hm_hs :: "int option"
  hm_as :: "int option"

text \<open>\<^verbatim>\<open>UNIQUE(group_id, jornada, home_team_id, away_team_id)\<close>\<close>

definition match_exists :: "store \<Rightarrow> nat \<Rightarrow> string \<Rightarrow> nat \<Rightarrow> nat \<Rightarrow> bool" where
  "match_exists s gid j h a =
     list_ex (\<lambda>m. m_group_id m = gid \<and> m_jornada m = j \<and>
                   m_home_team_id m = h \<and> m_away_team_id m = a) (matches s)"

text \<open>
  \<^verbatim>\<open>
  INSERT OR IGNORE INTO matches (group_id, jornada, date, time, home_team_id, away_team_id,
                                 home_score, away_score, venue) VALUES (?,?,?,?,?,?,?,?,?)
  \<close>
  \<^verbatim>\<open>OR IGNORE\<close> skips the row on a \<^verbatim>\<open>NOT NULL\<close> or \<^verbatim>\<open>UNIQUE\<close> conflict (the label is
  \<^verbatim>\<open>None\<close> when the group object carries \<^verbatim>\<open>"jornada": null\<close>); it does not cover a
  foreign key, whose violation raises. SQLite allots the rowid before it checks the
  constraints and writes it to \<^verbatim>\<open>sqlite_sequence\<close> when the statement ends: a skipped row
  leaves every table as it was and still moves the counter of \<^verbatim>\<open>matches\<close> on.
\<close>

definition skipped_insert :: "store \<Rightarrow> store" where
  "skipped_insert s = s\<lparr>matches_seq := next_rowid (map m_id (matches s)) (matches_seq s)\<rparr>"

definition insert_or_ignore_match ::
  "store \<Rightarrow> nat \<Rightarrow> string option \<Rightarrow> string option \<Rightarrow> string option \<Rightarrow> nat \<Rightarrow> nat \<Rightarrow>
   int option \<Rightarrow> int option \<Rightarrow> string option \<Rightarrow> db_error + store" where
  "insert_or_ignore_match s gid jor d t h a hs as v =
     (case jor of
        None \<Rightarrow> Inr (skipped_insert s)
      | Some j \<Rightarrow>
          if match_exists s gid j h a then Inr (skipped_insert s)
          else if gid \<in> set (map g_id (groups s)) \<and> h \<in> set (map t_id (teams s))
                  \<and> a \<in> set (map t_id (teams s))
          then (let i = next_rowid (map m_id (matches s)) (matches_seq s)
                in Inr (s\<lparr>matches := matches s @
                            [\<lparr>m_id = i, m_group_id = gid, m_jornada = j, m_date = d, m_time = t,
                              m_home_team_id = h, m_away_team_id = a,
                              m_home_score = hs, m_away_score = as, m_venue = v\<rparr>],
                          matches_seq := i\<rparr>))
          else Inl IntegrityError)"

text \<open>
  The body of the loop over \<^verbatim>\<open>g.get("matches", [])\<close> in \<^verbatim>\<open>import_category\<close>:
  \<^verbatim>\<open>
  home_id = get_or_create_team(conn, m[2])
  away_id = get_or_create_team(conn, m[3])
  conn.execute("INSERT OR IGNORE INTO matches (...) VALUES (?,?,?,?,?,?,?,?,?)",
               (gid, g.get("jornada", ""), m[0], m[1], home_id, away_id, m[4], m[5], m[6]))
  \<close>
\<close>

definition upsert_match_category ::
  "store \<Rightarrow> nat \<Rightarrow> string option \<Rightarrow> cur_match \<Rightarrow> db_error + store" where
  "upsert_match_category s gid jor m =
     (case get_or_create_team s (cm_home m) None of (home_id, s1) \<Rightarrow>
      case get_or_create_team s1 (cm_away m) None of (away_id, s2) \<Rightarrow>
        insert_or_ignore_match s2 gid jor (cm_date m) (cm_time m) home_id away_id
          (cm_hs m) (cm_as m) (cm_venue m))"

text \<open>
  The body of the innermost loop of \<^verbatim>\<open>import_history\<close>, which names no time and no venue:
  \<^verbatim>\<open>
  home_id = get_or_create_team(conn, m[1])
  away_id = get_or_create_team(conn, m[2])
  conn.execute("INSERT OR IGNORE INTO matches (group_id, jornada, date, home_team_id,
               away_team_id, home_score, away_score) VALUES (?,?,?,?,?,?,?)",
               (gid, jor_name, m[0], home_id, away_id, m[3], m[4]))
  \<close>
\<close>

definition upsert_match_history ::
  "store \<Rightarrow> nat \<Rightarrow> string \<Rightarrow> hist_match \<Rightarrow> db_error + store" where
  "upsert_match_history s gid jor_name m =
     (case get_or_create_team s (hm_home m) None of (home_id, s1) \<Rightarrow>
      case get_or_create_team s1 (hm_away m) None of (away_id, s2) \<Rightarrow>
        insert_or_ignore_match s2 gid (Some jor_name) (Some (hm_date m)) None home_id away_id
          (hm_hs m) (hm_as m) None)"

text \<open>The natural key of a match as the callers give it: group, label and the two team names.\<close>

definition match_present :: "store \<Rightarrow> nat \<Rightarrow> string \<Rightarrow> string \<Rightarrow> string \<Rightarrow> bool" where
  "match_present s gid j home away =
     (case find_team s home of
        None \<Rightarrow> False
      | Some th \<Rightarrow>
          (case find_team s away of
             None \<Rightarrow> False
           | Some ta \<Rightarrow> match_exists s gid j (t_id th) (t_id ta)))"

subsection \<open>Standings replacement in import\_category\<close>

text \<open>A row of a group's \<^verbatim>\<open>standings\<close> array: \<^verbatim>\<open>[pos, team, pts, J, G, E, P, GF, GC, DF]\<close>.\<close>

record standing_in =
  si_pos :: int
  si_team :: string
  si_pts :: int
  si_played :: int
  si_won :: int
  si_drawn :: int
  si_lost :: int
  si_gf :: int
  si_gc :: int
  si_gd :: int

text \<open>
  \<^verbatim>\<open>
  INSERT INTO standings (group_id, team_id, position, points, played, won, drawn, lost,
                         gf, gc, gd) VALUES (?,?,?,?,?,?,?,?,?,?,?)
  \<close>
  A plain \<^verbatim>\<open>INSERT\<close>: \<^verbatim>\<open>UNIQUE(group_id, team_id)\<close> and the two foreign keys raise.
\<close>

definition insert_standing :: "store \<Rightarrow> nat \<Rightarrow> nat \<Rightarrow> standing_in \<Rightarrow> db_error + store" where
  "insert_standing s gid tid r =
     (if list_ex (\<lambda>x. st_group_id x = gid \<and> st_team_id x = tid) (standings s)
      then Inl IntegrityError
      else if gid \<in> set (map g_id (groups s)) \<and> tid \<in> set (map t_id (teams s))
      then (let i = next_rowid (map st_id (standings s)) (standings_seq s)
            in Inr (s\<lparr>standings := standings s @
                        [\<lparr>st_id = i, st_group_id = gid, st_team_id = tid,
                          st_position = si_pos r, st_points = si_pts r,
                          st_played = si_played r, st_won = si_won r, st_drawn = si_drawn r,
                          st_lost = si_lost r, st_gf = si_gf r, st_gc = si_gc r,
                          st_gd = si_gd r\<rparr>],
                      standings_seq := i\<rparr>))
      else Inl IntegrityError)"

text \<open>
  \<^verbatim>\<open>
  for row in g.get("standings", []):
      team_id = get_or_create_team(conn, row[1])
      conn.execute("INSERT INTO standings (...) VALUES (?,?,?,?,?,?,?,?,?,?,?)",
                   (gid, team_id, row[0], row[2], ..., row[9]))
  \<close>
  An exception leaves the loop (nothing in \<^verbatim>\<open>import_category\<close> catches it).
\<close>

fun insert_standings :: "store \<Rightarrow> nat \<Rightarrow> standing_in list \<Rightarrow> db_error + store" where
  "insert_standings s gid [] = Inr s"
| "insert_standings s gid (r # rs) =
     (case get_or_create_team s (si_team r) None of (tid, s1) \<Rightarrow>
      case insert_standing s1 gid tid r of
        Inl e \<Rightarrow> Inl e
      | Inr s2 \<Rightarrow> insert_standings s2 gid rs)"

text \<open>\<^verbatim>\<open>conn.execute("DELETE FROM standings WHERE group_id=?", (gid,))\<close>, then the loop.\<close>

definition replace_standings :: "store \<Rightarrow> nat \<Rightarrow> standing_in list \<Rightarrow> db_error + store" where
  "replace_standings s gid rows =
     insert_standings (s\<lparr>standings := filter (\<lambda>x. st_group_id x \<noteq> gid) (standings s)\<rparr>) gid rows"

text \<open>The standings stored for a group, and what a stored row says apart from its rowid.\<close>

definition standings_of :: "store \<Rightarrow> nat \<Rightarrow> standing_row list" where
  "standings_of s gid = filter (\<lambda>x. st_group_id x = gid) (standings s)"

definition other_standings :: "store \<Rightarrow> nat \<Rightarrow> standing_row list" where
  "other_standings s gid = filter (\<lambda>x. st_group_id x \<noteq> gid) (standings s)"

definition team_name_of :: "store \<Rightarrow> nat \<Rightarrow> string option" where
  "team_name_of s i = map_option t_name (find (\<lambda>t. t_id t = i) (teams s))"

text \<open>
  The row as \<^verbatim>\<open>generate_category\<close> reads it back: the standings columns joined with the
  team's name (\<^verbatim>\<open>FROM standings s JOIN teams t ON s.team_id=t.id\<close>).
\<close>

definition standing_view :: "store \<Rightarrow> standing_row \<Rightarrow> standing_in option" where
  "standing_view s x =
     map_option (\<lambda>n. \<lparr>si_pos = st_position x, si_team = n, si_pts = st_points x,
                       si_played = st_played x, si_won = st_won x, si_drawn = st_drawn x,
                       si_lost = st_lost x, si_gf = st_gf x, si_gc = st_gc x,
                       si_gd = st_gd x\<rparr>)
       (team_name_of s (st_team_id x))"

subsection \<open>A small store\<close>

definition example_store :: store where
  "example_store =
     \<lparr>season_ids = [1], category_ids = [1],
      groups =
        [\<lparr>g_id = 1, g_season_id = 1, g_category_id = 1, g_code = ''A2'',
          g_name = Some ''Grupo 2'', g_full_name = Some ''Segunda Fase A - Grupo 2'',
          g_phase = Some ''Segunda Fase A'', g_island = Some ''grancanaria'',
          g_url = Some ''https://example.org/a2'', g_current_jornada = Some ''Jornada 3''\<rparr>,
         \<lparr>g_id = 2, g_season_id = 1, g_category_id = 1, g_code = ''B1'',
          g_name = Some ''Grupo 1'', g_full_name = None, g_phase = None, g_island = None,
          g_url = None, g_current_jornada = None\<rparr>],
      groups_seq = 2,
      teams =
        [\<lparr>t_id = 1, t_name = ''Arucas'', t_shield = None\<rparr>,
         \<lparr>t_id = 2, t_name = ''Telde'', t_shield = Some ''telde.png''\<rparr>,
         \<lparr>t_id = 3, t_name = ''Galdar'', t_shield = None\<rparr>],
      teams_seq = 3,
      standings =
        [\<lparr>st_id = 1, st_group_id = 1, st_team_id = 1, st_position = 1, st_points = 6,
          st_played = 2, st_won = 2, st_drawn = 0, st_lost = 0, st_gf = 5, st_gc = 1, st_gd = 4\<rparr>,
         \<lparr>st_id = 2, st_group_id = 2, st_team_id = 3, st_position = 1, st_points = 3,
          st_played = 1, st_won = 1, st_drawn = 0, st_lost = 0, st_gf = 2, st_gc = 0, st_gd = 2\<rparr>,
         \<lparr>st_id = 3, st_group_id = 1, st_team_id = 2, st_position = 2, st_points = 0,
          st_played = 2, st_won = 0, st_drawn = 0, st_lost = 2, st_gf = 1, st_gc = 5, st_gd = -4\<rparr>],
      standings_seq = 3,
      matches =
        [\<lparr>m_id = 1, m_group_id = 1, m_jornada = ''Jornada 3'', m_date = Some ''07/03'',
          m_time = Some ''10:00'', m_home_team_id = 1, m_away_team_id = 2,
          m_home_score = None, m_away_score = None, m_venue = None\<rparr>],
      matches_seq = 1\<rparr>"

definition example_row :: "string \<Rightarrow> int \<Rightarrow> int \<Rightarrow> standing_in" where
  "example_row n p pts =
     \<lparr>si_pos = p, si_team = n, si_pts = pts, si_played = 3, si_won = 1, si_drawn = 0,
      si_lost = 2, si_gf = 4, si_gc = 6, si_gd = -2\<rparr>"

definition example_kwargs :: kwargs where
  "example_kwargs = (\<lambda>c. None)(Name := Some (Some ''Grupo II''), Url := Some None,
                                Current_jornada := Some (Some ''Jornada 4''))"

section \<open>Strings, numbers and sorting as the scripts use them\<close>

text \<open>
  \<^verbatim>\<open>s.replace(/\D/g, '')\<close> keeps the decimal digits of a string; \<^verbatim>\<open>parseInt\<close> of a string of
  digits is its decimal value, and \<^verbatim>\<open>NaN\<close> (here \<open>None\<close>) for the empty string. A JavaScript
  number holds every integer below \<open>2 ^ 53\<close> exactly; the value is a \<open>nat\<close> here, which is
  what the script computes for labels of up to fifteen digits.
\<close>

definition is_digit :: "char \<Rightarrow> bool" where
  "is_digit c = (c \<in> set ''0123456789'')"

definition digit_val :: "char \<Rightarrow> nat" where
  "digit_val c = of_char c - 48"

definition dec_value :: "string \<Rightarrow> nat" where
  "dec_value ds = foldl (\<lambda>a c. 10 * a + digit_val c) 0 ds"

definition strip_non_digits :: "string \<Rightarrow> string" where
  "strip_non_digits s = filter is_digit s"

definition parseInt :: "string \<Rightarrow> nat option" where
  "parseInt ds = (if ds = [] then None else Some (dec_value ds))"

text \<open>\<^verbatim>\<open>parseInt(label.replace(/\D/g, ''))\<close>\<close>

definition label_number :: "string \<Rightarrow> nat option" where
  "label_number l = parseInt (strip_non_digits l)"

text \<open>\<^verbatim>\<open>s.startsWith(p)\<close> and \<^verbatim>\<open>s.includes(f)\<close>.\<close>

fun starts_with :: "string \<Rightarrow> string \<Rightarrow> bool" where
  "starts_with s [] = True"
| "starts_with [] (p # ps) = False"
| "starts_with (c # cs) (p # ps) = (c = p \<and> starts_with cs ps)"

fun js_includes :: "string \<Rightarrow> string \<Rightarrow> bool" where
  "js_includes [] f = (f = [])"
| "js_includes (c # cs) f = (starts_with (c # cs) f \<or> js_includes cs f)"

text \<open>
  \<^verbatim>\<open>Array.prototype.sort(comparefn)\<close>. ECMAScript requires the sort to be stable and, for a
  consistent comparator, to return the elements in the comparator's order; that fixes the
  result, which is the one of a stable insertion sort. Element \<open>x\<close> goes before \<open>y\<close> when
  \<^verbatim>\<open>comparefn(x, y) <= 0\<close> and \<open>x\<close> came first.
\<close>

fun js_insert :: "('a \<Rightarrow> 'a \<Rightarrow> int) \<Rightarrow> 'a \<Rightarrow> 'a list \<Rightarrow> 'a list" where
  "js_insert cmp x [] = [x]"
| "js_insert cmp x (y # ys) = (if cmp x y \<le> 0 then x # y # ys else y # js_insert cmp x ys)"

definition js_sort :: "('a \<Rightarrow> 'a \<Rightarrow> int) \<Rightarrow> 'a list \<Rightarrow> 'a list" where
  "js_sort cmp xs = foldr (js_insert cmp) xs []"

text \<open>\<^verbatim>\<open>xs.slice(-n)\<close> for a positive \<open>n\<close>: the last \<open>n\<close> elements, all of them when there are fewer.\<close>

definition slice_last :: "nat \<Rightarrow> 'a list \<Rightarrow> 'a list" where
  "slice_last n xs = drop (length xs - n) xs"

section \<open>Derived views of app.js\<close>

subsection \<open>getTeamForm\<close>

text \<open>
  \<^verbatim>\<open>HISTORY\<close> maps a group code to an object from matchday label to the matches
  \<^verbatim>\<open>[date, home, away, hs, as]\<close> of that matchday. An object is the list of its entries in
  the order of \<^verbatim>\<open>Object.entries\<close>; \<open>None\<close> is \<^verbatim>\<open>typeof HISTORY === 'undefined'\<close>.
\<close>

type_synonym history_group = "(string \<times> hist_match list) list"

type_synonym history = "(string \<times> history_group) list"

datatype outcome = W | L | D

record form_entry =
  fe_jorNum :: "nat option"
  fe_date :: string
  fe_result :: outcome

text \<open>
  The body of \<^verbatim>\<open>matches.forEach\<close>:
  \<^verbatim>\<open>
  if (m[3] === null || m[4] === null) return;
  if (m[1] !== teamName && m[2] !== teamName) return;
  const isHome = m[1] === teamName;
  const gf = isHome ? m[3] : m[4], gc = isHome ? m[4] : m[3];
  all.push({ jorNum, date: m[0], result: gf > gc ? 'W' : gf < gc ? 'L' : 'D' });
  \<close>
\<close>

definition match_entry :: "string \<Rightarrow> nat option \<Rightarrow> hist_match \<Rightarrow> form_entry list" where
  "match_entry teamName jorNum m =
     (case hm_hs m of
        None \<Rightarrow> []
      | Some hs \<Rightarrow>
          (case hm_as m of
             None \<Rightarrow> []
           | Some as \<Rightarrow>
               if hm_home m \<noteq> teamName \<and> hm_away m \<noteq> teamName then []
               else (let isHome = (hm_home m = teamName);
                         gf = (if isHome then hs else as);
                         gc = (if isHome then as else hs)
                     in [\<lparr>fe_jorNum = jorNum, fe_date = hm_date m,
                          fe_result = (if gf > gc then W else if gf < gc then L else D)\<rparr>])))"

definition jornada_entries :: "string \<Rightarrow> string \<times> hist_match list \<Rightarrow> form_entry list" where
  "jornada_entries teamName e =
     (case e of (jorName, ms) \<Rightarrow> concat (map (match_entry teamName (label_number jorName)) ms))"

text \<open>
  \<^verbatim>\<open>(a, b) => a.jorNum - b.jorNum || a.date.localeCompare(b.date)\<close>: the difference when it
  is a number other than zero, the comparison of the dates when it is zero or \<^verbatim>\<open>NaN\<close>.
  \<^verbatim>\<open>localeCompare\<close> is the platform's collation and is a parameter.
\<close>

definition form_cmp :: "(string \<Rightarrow> string \<Rightarrow> int) \<Rightarrow> form_entry \<Rightarrow> form_entry \<Rightarrow> int" where
  "form_cmp localeCompare a b =
     (case fe_jorNum a of
        None \<Rightarrow> localeCompare (fe_date a) (fe_date b)
      | Some x \<Rightarrow>
          (case fe_jorNum b of
             None \<Rightarrow> localeCompare (fe_date a) (fe_date b)
           | Some y \<Rightarrow>
               if int x - int y \<noteq> 0 then int x - int y
               else localeCompare (fe_date a) (fe_date b)))"

text \<open>The array \<^verbatim>\<open>all\<close> after \<^verbatim>\<open>all.sort(...)\<close>: the team's scored matches in matchday order.\<close>

definition team_history ::
  "(string \<Rightarrow> string \<Rightarrow> int) \<Rightarrow> history_group \<Rightarrow> string \<Rightarrow> form_entry list" where
  "team_history localeCompare hist teamName =
     js_sort (form_cmp localeCompare) (concat (map (jornada_entries teamName) hist))"

text \<open>
  \<^verbatim>\<open>
  function getTeamForm(teamName, groupId, n) {
    n = n || 5;
    if (typeof HISTORY === 'undefined' || !HISTORY[groupId]) return [];
    const hist = HISTORY[groupId];
    const all = [];
    Object.entries(hist).forEach(([jorName, matches]) => { ... });
    all.sort((a, b) => a.jorNum - b.jorNum || a.date.localeCompare(b.date));
    return all.slice(-n);
  }
  \<close>
  The window \<open>n\<close> is \<open>None\<close> when the caller leaves it out.
\<close>

definition getTeamForm ::
  "(string \<Rightarrow> string \<Rightarrow> int) \<Rightarrow> history option \<Rightarrow> string \<Rightarrow> string \<Rightarrow> nat option
   \<Rightarrow> form_entry list" where
  "getTeamForm localeCompare HISTORY teamName groupId n =
     (let n' = (case n of None \<Rightarrow> 5 | Some k \<Rightarrow> if k = 0 then 5 else k)
      in case HISTORY of
           None \<Rightarrow> []
         | Some H \<Rightarrow>
             (case map_of H groupId of
                None \<Rightarrow> []
              | Some hist \<Rightarrow> slice_last n' (team_history localeCompare hist teamName)))"

text \<open>
  A collation for the examples: code unit order, which is how \<^verbatim>\<open>localeCompare\<close> orders
  dates written with digits and one separator.
\<close>

fun code_unit_compare :: "string \<Rightarrow> string \<Rightarrow> int" where
  "code_unit_compare [] [] = 0"
| "code_unit_compare [] (b # bs) = -1"
| "code_unit_compare (a # as) [] = 1"
| "code_unit_compare (a # as) (b # bs) =
     (if (of_char a :: nat) < of_char b then -1
      else if (of_char b :: nat) < of_char a then 1
      else code_unit_compare as bs)"

text \<open>Seven matchdays of a team \<open>T\<close>, listed out of order, with results W, L, D, W, W, L, D.\<close>

definition example_history :: history where
  "example_history =
     [(''A2'',
       [(''Jornada 10'', [\<lparr>hm_date = ''01/03'', hm_home = ''X'', hm_away = ''Y'',
                            hm_hs = Some 1, hm_as = Some 0\<rparr>]),
        (''Jornada 2'', [\<lparr>hm_date = ''11/01'', hm_home = ''T'', hm_away = ''B'',
                           hm_hs = Some 0, hm_as = Some 2\<rparr>]),
        (''Jornada 1'', [\<lparr>hm_date = ''04/01'', hm_home = ''T'', hm_away = ''A'',
                           hm_hs = Some 3, hm_as = Some 1\<rparr>,
                          \<lparr>hm_date = ''04/01'', hm_home = ''X'', hm_away = ''Y'',
                           hm_hs = Some 2, hm_as = Some 2\<rparr>]),
        (''Jornada 3'', [\<lparr>hm_date = ''18/01'', hm_home = ''C'', hm_away = ''T'',
                           hm_hs = Some 1, hm_as = Some 1\<rparr>]),
        (''Jornada 4'', [\<lparr>hm_date = ''25/01'', hm_home = ''D'', hm_away = ''T'',
                           hm_hs = Some 0, hm_as = Some 4\<rparr>]),
        (''Jornada 5'', [\<lparr>hm_date = ''01/02'', hm_home = ''T'', hm_away = ''E'',
                           hm_hs = Some 2, hm_as = Some 1\<rparr>]),
        (''Jornada 6'', [\<lparr>hm_date = ''08/02'', hm_home = ''F'', hm_away = ''T'',
                           hm_hs = Some 5, hm_as = Some 0\<rparr>]),
        (''Jornada 7'', [\<lparr>hm_date = ''15/02'', hm_home = ''T'', hm_away = ''G'',
                           hm_hs = Some 2, hm_as = Some 2\<rparr>]),
        (''Jornada 8'', [\<lparr>hm_date = ''22/02'', hm_home = ''T'', hm_away = ''H'',
                           hm_hs = None, hm_as = None\<rparr>])])]"

subsection \<open>Global scorer ranking in renderGolTable\<close>

text \<open>
  An entry of \<^verbatim>\<open>GOL_BENJ\<close> or \<^verbatim>\<open>GOL_PREBENJ\<close> is \<^verbatim>\<open>{g: groupFullName, s: [[player, team,
  goals, games], ...]}\<close>; a row of the table is \<^verbatim>\<open>{name, team, goals, games, group}\<close>.
\<close>

record scorer_in =
  sc_player :: string
  sc_team :: string
  sc_goals :: int
  sc_games :: int

record gol_group =
  gg_g :: string
  gg_s :: "scorer_in list"

record scorer_row =
  sr_name :: string
  sr_team :: string
  sr_goals :: int
  sr_games :: int
  sr_group :: string

definition tag_scorer :: "string \<Rightarrow> scorer_in \<Rightarrow> scorer_row" where
  "tag_scorer g s =
     \<lparr>sr_name = sc_player s, sr_team = sc_team s, sr_goals = sc_goals s,
      sr_games = sc_games s, sr_group = g\<rparr>"

text \<open>
  \<^verbatim>\<open>golData.forEach(g => { g.s.forEach(s => { scorers.push({..., group: g.g}); }); });\<close>
\<close>

definition merge_scorers :: "gol_group list \<Rightarrow> scorer_row list" where
  "merge_scorers golData = concat (map (\<lambda>g. map (tag_scorer (gg_g g)) (gg_s g)) golData)"

text \<open>\<^verbatim>\<open>(a, b) => b.goals - a.goals || a.games - b.games\<close>\<close>

definition scorer_cmp :: "scorer_row \<Rightarrow> scorer_row \<Rightarrow> int" where
  "scorer_cmp a b =
     (if sr_goals b - sr_goals a \<noteq> 0 then sr_goals b - sr_goals a
      else sr_games a - sr_games b)"

text \<open>
  The rows \<^verbatim>\<open>renderGolTable\<close> shows:
  \<^verbatim>\<open>
  const isGlobal = S.golGroup === '__GLOBAL__';
  let scorers = [];
  if (isGlobal) {
    golData.forEach(...);
    scorers.sort((a, b) => b.goals - a.goals || a.games - b.games);
    scorers = scorers.slice(0, 30);
  } else {
    const gd = golData.find(g => g.g === S.golGroup);
    if (gd) scorers = gd.s.map(s => ({ ..., group: '' }));
  }
  \<close>
\<close>

definition global_scorers :: "gol_group list \<Rightarrow> scorer_row list" where
  "global_scorers golData = take 30 (js_sort scorer_cmp (merge_scorers golData))"

definition gol_table_rows :: "gol_group list \<Rightarrow> string \<Rightarrow> scorer_row list" where
  "gol_table_rows golData golGroup =
     (if golGroup = ''__GLOBAL__'' then global_scorers golData
      else (case find (\<lambda>g. gg_g g = golGroup) golData of
              None \<Rightarrow> []
            | Some gd \<Rightarrow> map (tag_scorer '''') (gg_s gd)))"

text \<open>\<open>a\<close> ranks no lower than \<open>b\<close>: more goals, or the same goals in no more games.\<close>

definition ranks_before :: "scorer_row \<Rightarrow> scorer_row \<Rightarrow> bool" where
  "ranks_before a b =
     (sr_goals a > sr_goals b \<or> (sr_goals a = sr_goals b \<and> sr_games a \<le> sr_games b))"

text \<open>The same order as a key: pairs compare first by the first component.\<close>

definition scorer_key :: "scorer_row \<Rightarrow> int \<times> int" where
  "scorer_key a = (- sr_goals a, sr_games a)"

definition example_gol :: "gol_group list" where
  "example_gol =
     [\<lparr>gg_g = ''Grupo 1'',
       gg_s = [\<lparr>sc_player = ''P1'', sc_team = ''Arucas'', sc_goals = 5, sc_games = 3\<rparr>,
               \<lparr>sc_player = ''P2'', sc_team = ''Telde'', sc_goals = 5, sc_games = 2\<rparr>]\<rparr>,
      \<lparr>gg_g = ''Grupo 2'',
       gg_s = [\<lparr>sc_player = ''P3'', sc_team = ''Galdar'', sc_goals = 7, sc_games = 4\<rparr>]\<rparr>]"

subsection \<open>Matchday order\<close>

text \<open>
  The matchday list of \<^verbatim>\<open>renderJornadaContent\<close>:
  \<^verbatim>\<open>
  const jornadas = Object.keys(hist).sort((a, b) => {
    const na = parseInt(a.replace(/\D/g, ''));
    const nb = parseInt(b.replace(/\D/g, ''));
    return na - nb;
  });
  \<close>
  A comparator result of \<^verbatim>\<open>NaN\<close> counts as \<open>0\<close> in \<^verbatim>\<open>sort\<close>.
\<close>

definition jornada_cmp :: "string \<Rightarrow> string \<Rightarrow> int" where
  "jornada_cmp a b =
     (case label_number a of
        None \<Rightarrow> 0
      | Some na \<Rightarrow> (case label_number b of None \<Rightarrow> 0 | Some nb \<Rightarrow> int na - int nb))"

definition sorted_jornadas :: "history_group \<Rightarrow> string list" where
  "sorted_jornadas hist = js_sort jornada_cmp (map fst hist)"












subsection \<open>Selection state and the section tabs\<close>

text \<open>
  The global \<^verbatim>\<open>S\<close>. The section is one of the four for which the page has a container;
  the other fields are strings.
\<close>

datatype section_id = Clasif | Jornadas | Goleadores | Isla

record app_state =
  S_cat :: string
  S_section :: section_id
  S_search :: string
  S_jorGroup :: string
  S_jorNum :: string
  S_golGroup :: string
  S_island :: string

text \<open>
  What the render functions read of a group object, and the data files the page loaded.
  \<^verbatim>\<open>jornada\<close> is \<open>None\<close> when the group carries none.
\<close>

record group_data =
  gd_id :: string
  gd_island :: string
  gd_jornada :: "string option"

record app_data =
  BENJAMIN :: "group_data list"
  PREBENJAMIN :: "group_data list"
  HISTORY :: "history option"
  GOL_BENJ :: "gol_group list"
  GOL_PREBENJ :: "gol_group list"

text \<open>\<^verbatim>\<open>function getData() { return S.cat === 'benjamin' ? BENJAMIN : PREBENJAMIN; }\<close>\<close>

definition getData :: "app_data \<Rightarrow> app_state \<Rightarrow> group_data list" where
  "getData dat S = (if S_cat S = ''benjamin'' then BENJAMIN dat else PREBENJAMIN dat)"

text \<open>
  The assignments to \<^verbatim>\<open>S\<close> in \<^verbatim>\<open>renderJornadaContent\<close> (the rest of the function builds
  the page):
  \<^verbatim>\<open>
  if (!S.jorGroup) return;
  const group = getData().find(g => g.id === S.jorGroup);
  if (!group) return;
  if (typeof HISTORY !== 'undefined' && HISTORY[S.jorGroup]) {
    const hist = HISTORY[S.jorGroup];
    const jornadas = Object.keys(hist).sort(...);
    if (jornadas.length === 0) { ...; return; }
    if (!S.jorNum || !jornadas.includes(S.jorNum)) S.jorNum = jornadas[jornadas.length - 1];
    const currentJor = group.jornada;
    let hasCurrentInHistory = jornadas.includes(currentJor);
    ...
    if (!hasCurrentInHistory && currentJor) {
      ...
      if (!jornadas.includes(S.jorNum)) S.jorNum = currentJor;
    }
    ...
  } else { ... }
  \<close>
\<close>

definition renderJornadaContent :: "app_data \<Rightarrow> app_state \<Rightarrow> app_state" where
  "renderJornadaContent dat S =
     (if S_jorGroup S = [] then S
      else case find (\<lambda>g. gd_id g = S_jorGroup S) (getData dat S) of
        None \<Rightarrow> S
      | Some grp \<Rightarrow>
          (case HISTORY dat of
             None \<Rightarrow> S
           | Some H \<Rightarrow>
               (case map_of H (S_jorGroup S) of
                  None \<Rightarrow> S
                | Some hist \<Rightarrow>
                    (let jornadas = sorted_jornadas hist
                     in if jornadas = [] then S
                        else (let S1 = (if S_jorNum S = [] \<or> S_jorNum S \<notin> set jornadas
                                        then S\<lparr>S_jorNum := last jornadas\<rparr> else S)
                              in case gd_jornada grp of
                                   None \<Rightarrow> S1
                                 | Some currentJor \<Rightarrow>
                                     if currentJor \<notin> set jornadas \<and> currentJor \<noteq> []
                                     then (if S_jorNum S1 \<notin> set jornadas
                                           then S1\<lparr>S_jorNum := currentJor\<rparr> else S1)
                                     else S1)))))"

text \<open>
  \<^verbatim>\<open>renderJornadas\<close>:
  \<^verbatim>\<open>
  if (!S.jorGroup && data.length > 0) { S.jorGroup = data[0].id; }
  if (S.jorGroup) { select.value = S.jorGroup; renderJornadaContent(); }
  \<close>
\<close>

definition renderJornadas :: "app_data \<Rightarrow> app_state \<Rightarrow> app_state" where
  "renderJornadas dat S =
     (let S1 = (if S_jorGroup S = []
                then (case getData dat S of [] \<Rightarrow> S | g # _ \<Rightarrow> S\<lparr>S_jorGroup := gd_id g\<rparr>)
                else S)
      in if S_jorGroup S1 \<noteq> [] then renderJornadaContent dat S1 else S1)"

text \<open>
  \<^verbatim>\<open>renderGoleadores\<close>:
  \<^verbatim>\<open>
  const golData = S.cat === 'benjamin' ? GOL_BENJ : GOL_PREBENJ;
  if (!golData || golData.length === 0) { ...; return; }
  ...
  if (!S.golGroup) S.golGroup = '__GLOBAL__';
  \<close>
\<close>

definition renderGoleadores :: "app_data \<Rightarrow> app_state \<Rightarrow> app_state" where
  "renderGoleadores dat S =
     (let golData = (if S_cat S = ''benjamin'' then GOL_BENJ dat else GOL_PREBENJ dat)
      in if golData = [] then S
         else if S_golGroup S = [] then S\<lparr>S_golGroup := ''__GLOBAL__''\<rparr> else S)"

text \<open>
  \<^verbatim>\<open>renderIsla\<close>:
  \<^verbatim>\<open>
  const availableIslands = new Set(data.map(g => g.island));
  ...
  if (!availableIslands.has(S.island)) {
    S.island = availableIslands.values().next().value || 'grancanaria';
  }
  \<close>
\<close>

definition renderIsla :: "app_data \<Rightarrow> app_state \<Rightarrow> app_state" where
  "renderIsla dat S =
     (if S_island S \<in> set (map gd_island (getData dat S)) then S
      else S\<lparr>S_island :=
                (case getData dat S of
                   [] \<Rightarrow> ''grancanaria''
                 | g # _ \<Rightarrow> if gd_island g = [] then ''grancanaria'' else gd_island g)\<rparr>)"

text \<open>
  \<^verbatim>\<open>renderSection\<close>; \<^verbatim>\<open>renderClasif\<close> and \<^verbatim>\<open>updateSearchCount\<close> assign nothing to \<^verbatim>\<open>S\<close>.
\<close>

definition renderSection :: "app_data \<Rightarrow> app_state \<Rightarrow> app_state" where
  "renderSection dat S =
     (case S_section S of
        Clasif \<Rightarrow> S
      | Jornadas \<Rightarrow> renderJornadas dat S
      | Goleadores \<Rightarrow> renderGoleadores dat S
      | Isla \<Rightarrow> renderIsla dat S)"

text \<open>
  The click handler of a section tab:
  \<^verbatim>\<open>
  S.section = tab.dataset.section;
  if (S.section === 'jornadas') S.jorNum = '';
  $$('.section-tab').forEach(t => t.classList.toggle('active', t === tab));
  window.scrollTo({ top: 0, behavior: 'smooth' });
  renderSection();
  \<close>
\<close>

definition section_click :: "app_data \<Rightarrow> app_state \<Rightarrow> section_id \<Rightarrow> app_state" where
  "section_click dat S target =
     (let S1 = S\<lparr>S_section := target\<rparr>;
          S2 = (if target = Jornadas then S1\<lparr>S_jorNum := []\<rparr> else S1)
      in renderSection dat S2)"

definition example_data :: app_data where
  "example_data =
     \<lparr>BENJAMIN = [\<lparr>gd_id = ''A2'', gd_island = ''grancanaria'', gd_jornada = Some ''Jornada 8''\<rparr>],
      PREBENJAMIN = [\<lparr>gd_id = ''PG2'', gd_island = ''lanzarote'', gd_jornada = None\<rparr>],
      HISTORY = Some example_history,
      GOL_BENJ = example_gol,
      GOL_PREBENJ = []\<rparr>"

definition example_state :: app_state where
  "example_state =
     \<lparr>S_cat = ''benjamin'', S_section = Clasif, S_search = ''tel'', S_jorGroup = ''A2'',
      S_jorNum = ''Jornada 3'', S_golGroup = ''Grupo 1'', S_island = ''grancanaria''\<rparr>"

section \<open>Offline cache: the service worker\<close>

text \<open>
  A request is the URL of a \<^verbatim>\<open>GET\<close> for a page asset, a response its status and body.
  \<^verbatim>\<open>fetch\<close> settles to a response, whatever its status, or rejects. A cache maps a URL to
  the response stored for it; the cache storage holds the named caches in the order of
  their creation.
\<close>

record response =
  rs_status :: nat
  rs_body :: string

datatype fetch_outcome = Fulfilled response | Rejected

type_synonym cache = "string \<Rightarrow> response option"

type_synonym cache_storage = "(string \<times> cache) list"

text \<open>\<^verbatim>\<open>caches.match(request)\<close>: the first match over the caches, \<^verbatim>\<open>undefined\<close> without one.\<close>

fun caches_match :: "cache_storage \<Rightarrow> string \<Rightarrow> response option" where
  "caches_match [] url = None"
| "caches_match ((n, c) # cs) url =
     (case c url of Some r \<Rightarrow> Some r | None \<Rightarrow> caches_match cs url)"

text \<open>
  \<^verbatim>\<open>caches.open(name).then(c => c.put(request, clone))\<close>: \<^verbatim>\<open>open\<close> creates the cache when
  there is none of that name, \<^verbatim>\<open>put\<close> stores the response over any earlier one. The
  handlers do not wait for the write; the storage returned is the one after it.
\<close>

fun cache_put :: "cache_storage \<Rightarrow> string \<Rightarrow> string \<Rightarrow> response \<Rightarrow> cache_storage" where
  "cache_put [] name url r = [(name, Map.empty(url \<mapsto> r))]"
| "cache_put ((n, c) # cs) name url r =
     (if n = name then (n, c(url \<mapsto> r)) # cs else (n, c) # cache_put cs name url r)"

text \<open>What the cache of a given name holds for a URL.\<close>

definition cache_lookup :: "cache_storage \<Rightarrow> string \<Rightarrow> string \<Rightarrow> response option" where
  "cache_lookup cs name url = (case map_of cs name of None \<Rightarrow> None | Some c \<Rightarrow> c url)"

subsection \<open>sw.js, cache version 20260301\<close>

definition CACHE_NAME_20260301 :: string where
  "CACHE_NAME_20260301 = ''futbolbase-v20260301''"

text \<open>
  \<^verbatim>\<open>
  caches.match(e.request).then(cached => {
    if (cached) return cached;
    return fetch(e.request).then(resp => {
      if (!e.request.url.startsWith(self.location.origin)) return resp;
      const clone = resp.clone();
      caches.open(CACHE_NAME).then(c => c.put(e.request, clone));
      return resp;
    });
  }).catch(() => caches.match('./index.html'))
  \<close>
  The result is what \<^verbatim>\<open>respondWith\<close> receives (\<open>None\<close> for \<^verbatim>\<open>undefined\<close>) and the cache
  storage afterwards. \<open>origin\<close> is \<^verbatim>\<open>self.location.origin\<close>, \<open>index_url\<close> the URL that
  \<^verbatim>\<open>'./index.html'\<close> resolves to, \<open>net\<close> what \<^verbatim>\<open>fetch(e.request)\<close> settles to when it is
  called.
\<close>

definition cache_first ::
  "string \<Rightarrow> string \<Rightarrow> string \<Rightarrow> cache_storage \<Rightarrow> string \<Rightarrow> fetch_outcome
   \<Rightarrow> response option \<times> cache_storage" where
  "cache_first cache_name origin index_url cs url net =
     (case caches_match cs url of
        Some cached \<Rightarrow> (Some cached, cs)
      | None \<Rightarrow>
          (case net of
             Fulfilled resp \<Rightarrow>
               if \<not> starts_with url origin then (Some resp, cs)
               else (Some resp, cache_put cs cache_name url resp)
           | Rejected \<Rightarrow> (caches_match cs index_url, cs)))"

text \<open>The \<^verbatim>\<open>fetch\<close> listener of this version answers every request that way.\<close>

definition fetch_listener_20260301 ::
  "string \<Rightarrow> string \<Rightarrow> cache_storage \<Rightarrow> string \<Rightarrow> fetch_outcome
   \<Rightarrow> response option \<times> cache_storage" where
  "fetch_listener_20260301 origin index_url cs url net =
     cache_first CACHE_NAME_20260301 origin index_url cs url net"

subsection \<open>The service worker of cache version 20260302c\<close>

definition CACHE_NAME :: string where
  "CACHE_NAME = ''futbolbase-v20260302c''"

definition DATA_FILES :: "string list" where
  "DATA_FILES = [''data-benjamin'', ''data-prebenjamin'', ''data-history'', ''data-goleadores'',
                 ''data-matchdetail'', ''data-shields'']"

text \<open>\<^verbatim>\<open>const isDataFile = DATA_FILES.some(f => e.request.url.includes(f));\<close>\<close>

definition isDataFile :: "string \<Rightarrow> bool" where
  "isDataFile url = list_ex (\<lambda>f. js_includes url f) DATA_FILES"

text \<open>
  \<^verbatim>\<open>
  if (isDataFile) {
    e.respondWith(
      fetch(e.request).then(resp => {
        const clone = resp.clone();
        caches.open(CACHE_NAME).then(c => c.put(e.request, clone));
        return resp;
      }).catch(() => caches.match(e.request))
    );
  } else {
    e.respondWith(caches.match(e.request).then(cached => { ... }).catch(...));
  }
  \<close>
  The second branch is the listener of the earlier version.
\<close>

definition network_first ::
  "cache_storage \<Rightarrow> string \<Rightarrow> fetch_outcome \<Rightarrow> response option \<times> cache_storage" where
  "network_first cs url net =
     (case net of
        Fulfilled resp \<Rightarrow> (Some resp, cache_put cs CACHE_NAME url resp)
      | Rejected \<Rightarrow> (caches_match cs url, cs))"

definition fetch_listener ::
  "string \<Rightarrow> string \<Rightarrow> cache_storage \<Rightarrow> string \<Rightarrow> fetch_outcome
   \<Rightarrow> response option \<times> cache_storage" where
  "fetch_listener origin index_url cs url net =
     (if isDataFile url then network_first cs url net
      else cache_first CACHE_NAME origin index_url cs url net)"

text \<open>A page origin, a cache that holds an earlier copy of the history file, and responses.\<close>

definition example_origin :: string where
  "example_origin = ''https://malolocabreralolo-tech.github.io''"

definition history_url :: string where
  "history_url = ''https://malolocabreralolo-tech.github.io/futbol-base/data-history.js''"

definition cdn_url :: string where
  "cdn_url = ''https://cdn.example.org/data-shields.js''"

definition index_url_example :: string where
  "index_url_example = ''https://malolocabreralolo-tech.github.io/futbol-base/index.html''"

definition old_copy :: response where
  "old_copy = \<lparr>rs_status = 200, rs_body = ''const HISTORY={};''\<rparr>"

definition fresh_copy :: response where
  "fresh_copy = \<lparr>rs_status = 200, rs_body = ''const HISTORY={A2:{}};''\<rparr>"

definition not_found :: response where
  "not_found = \<lparr>rs_status = 404, rs_body = ''Not Found''\<rparr>"

definition example_caches :: "string \<Rightarrow> cache_storage" where
  "example_caches name = [(name, Map.empty(history_url \<mapsto> old_copy))]"

section \<open>Properties of the reconciliation store\<close>

lemma le_fold_max: "x \<in> set ids \<Longrightarrow> x \<le> fold max ids (seq::nat)"
proof (induction ids arbitrary: seq)
  case Nil
  then show ?case by simp
next
  case (Cons a ids)
  have mono: "\<And>b. b \<le> fold max ids b"
  proof -
    fix b :: nat
    show "b \<le> fold max ids b"
      by (induction ids arbitrary: b) (auto intro: order_trans [OF max.cobounded2])
  qed
  from Cons show ?case
  proof (cases "x = a")
    case True
    have "a \<le> max a seq" by simp
    also have "\<dots> \<le> fold max ids (max a seq)" by (rule mono)
    finally show ?thesis using True by simp
  next
    case False
    with Cons show ?thesis by simp
  qed
qed

lemma next_rowid_fresh: "next_rowid ids seq \<notin> set ids"
  using le_fold_max [of "next_rowid ids seq" ids seq] by (auto simp: next_rowid_def)

lemma find_name_update_shield:
  "find (\<lambda>t. t_name t = n) (update_shield i sf ts) =
   map_option (\<lambda>t. if t_id t = i then t\<lparr>t_shield := sf\<rparr> else t) (find (\<lambda>t. t_name t = n) ts)"
  by (induction ts) (auto simp: update_shield_def)

lemma update_shield_idem: "update_shield i sf (update_shield i sf ts) = update_shield i sf ts"
  by (induction ts) (auto simp: update_shield_def)

lemma update_shield_fresh: "i \<notin> t_id ` set ts \<Longrightarrow> update_shield i sf ts = ts"
  by (induction ts) (auto simp: update_shield_def)

lemma update_shield_append:
  "update_shield i sf (xs @ ys) = update_shield i sf xs @ update_shield i sf ys"
  by (simp add: update_shield_def)

lemma filter_name_update_shield:
  "length (filter (\<lambda>t. t_name t = n) (update_shield i sf ts)) =
   length (filter (\<lambda>t. t_name t = n) ts)"
  by (induction ts) (auto simp: update_shield_def)

lemma find_None_filter: "find P xs = None \<Longrightarrow> filter P xs = []"
  by (induction xs) (auto split: if_splits)

lemma find_Some_filter: "find P xs = Some x \<Longrightarrow> 0 < length (filter P xs)"
  by (induction xs) (auto split: if_splits)

lemma find_append_new: "find P xs = None \<Longrightarrow> P x \<Longrightarrow> find P (xs @ [x]) = Some x"
  by (induction xs) (auto split: if_splits)

text \<open>
  C4. The team upsert is idempotent: for every store, name and shield argument, a second
  call with the same arguments returns the identifier of the first call and leaves the
  whole store (so the set of team rows) as the first call left it; the two calls
  together add at most one row, and afterwards the name has one row if it had none before
  and as many as before otherwise.
\<close>

theorem get_or_create_team_idempotent:
  "get_or_create_team (snd (get_or_create_team s n sf)) n sf =
     (fst (get_or_create_team s n sf), snd (get_or_create_team s n sf))
   \<and> length (teams (snd (get_or_create_team (snd (get_or_create_team s n sf)) n sf)))
       \<le> Suc (length (teams s))
   \<and> length (rows_named n (snd (get_or_create_team (snd (get_or_create_team s n sf)) n sf)))
       = max 1 (length (rows_named n s))"
proof (cases "find_team s n")
  case None
  define i where "i = next_rowid (map t_id (teams s)) (teams_seq s)"
  define new where "new = \<lparr>t_id = i, t_name = n, t_shield = sf\<rparr>"
  define s1 where "s1 = s\<lparr>teams := teams s @ [new], teams_seq := i\<rparr>"
  have first: "get_or_create_team s n sf = (i, s1)"
    using None by (simp add: get_or_create_team_def i_def new_def s1_def Let_def)
  have found: "find_team s1 n = Some new"
    using None by (simp add: find_team_def s1_def new_def find_append_new)
  have fresh: "i \<notin> t_id ` set (teams s)"
    using next_rowid_fresh [of "map t_id (teams s)" "teams_seq s"] by (simp add: i_def)
  have "update_shield i sf (teams s) = teams s"
    using fresh by (rule update_shield_fresh)
  moreover have "update_shield i sf [new] = [new]"
    by (simp add: update_shield_def new_def)
  ultimately have upd: "update_shield i sf (teams s1) = teams s1"
    by (simp add: s1_def update_shield_append)
  have second: "get_or_create_team s1 n sf = (i, s1)"
    using found upd by (simp add: get_or_create_team_def new_def)
  have none: "filter (\<lambda>t. t_name t = n) (teams s) = []"
    using None by (simp add: find_team_def find_None_filter)
  show ?thesis
    using first second none by (simp add: s1_def rows_named_def new_def)
next
  case (Some row)
  define s1 where
    "s1 = (if truthy sf then s\<lparr>teams := update_shield (t_id row) sf (teams s)\<rparr> else s)"
  have first: "get_or_create_team s n sf = (t_id row, s1)"
    using Some by (simp add: get_or_create_team_def s1_def)
  have found: "\<exists>row'. find_team s1 n = Some row' \<and> t_id row' = t_id row"
    using Some by (auto simp: find_team_def s1_def find_name_update_shield)
  have second: "get_or_create_team s1 n sf = (t_id row, s1)"
    using found by (auto simp: get_or_create_team_def s1_def update_shield_idem)
  have len: "length (teams s1) = length (teams s)"
    by (simp add: s1_def update_shield_def)
  have cnt: "length (rows_named n s1) = length (rows_named n s)"
    by (simp add: s1_def rows_named_def filter_name_update_shield)
  have "0 < length (rows_named n s)"
    using Some find_Some_filter [of "\<lambda>t. t_name t = n" "teams s" row]
    by (simp add: find_team_def rows_named_def)
  then have one: "max 1 (length (rows_named n s)) = length (rows_named n s)"
    by (cases "rows_named n s") simp_all
  show ?thesis
    unfolding first one using second len cnt by simp
qed

lemma get_or_create_team_found:
  "find_team s n = Some row \<Longrightarrow> get_or_create_team s n None = (t_id row, s)"
  by (simp add: get_or_create_team_def truthy_def)

text \<open>
  C1 (as amended). When a match row with the natural key (group, matchday label, home
  team, away team) is in the store, whatever its scores, a match upsert with that key
  adds no row and changes no row of any table, so the existing row keeps its scores, date,
  time and venue. The store after the call is the store before it but for one thing: the
  \<^verbatim>\<open>AUTOINCREMENT\<close> counter of \<^verbatim>\<open>matches\<close> has moved on to the rowid the skipped row was
  allotted. This holds for the upsert of \<^verbatim>\<open>import_category\<close> and for the one of
  \<^verbatim>\<open>import_history\<close>, and for every date, time, score and venue the call carries.
\<close>

theorem match_upsert_existing_rows_kept:
  "(match_present s gid j (cm_home m) (cm_away m) \<longrightarrow>
      upsert_match_category s gid (Some j) m
        = Inr (s\<lparr>matches_seq := next_rowid (map m_id (matches s)) (matches_seq s)\<rparr>))
   \<and> (match_present s gid j (hm_home h) (hm_away h) \<longrightarrow>
      upsert_match_history s gid j h
        = Inr (s\<lparr>matches_seq := next_rowid (map m_id (matches s)) (matches_seq s)\<rparr>))"
proof (intro conjI impI)
  assume "match_present s gid j (cm_home m) (cm_away m)"
  then obtain th ta where th: "find_team s (cm_home m) = Some th"
    and ta: "find_team s (cm_away m) = Some ta"
    and ex: "match_exists s gid j (t_id th) (t_id ta)"
    by (auto simp: match_present_def split: option.splits)
  show "upsert_match_category s gid (Some j) m
        = Inr (s\<lparr>matches_seq := next_rowid (map m_id (matches s)) (matches_seq s)\<rparr>)"
    using ex
    by (simp add: upsert_match_category_def get_or_create_team_found [OF th]
        get_or_create_team_found [OF ta] insert_or_ignore_match_def skipped_insert_def)
next
  assume "match_present s gid j (hm_home h) (hm_away h)"
  then obtain th ta where th: "find_team s (hm_home h) = Some th"
    and ta: "find_team s (hm_away h) = Some ta"
    and ex: "match_exists s gid j (t_id th) (t_id ta)"
    by (auto simp: match_present_def split: option.splits)
  show "upsert_match_history s gid j h
        = Inr (s\<lparr>matches_seq := next_rowid (map m_id (matches s)) (matches_seq s)\<rparr>)"
    using ex
    by (simp add: upsert_match_history_def get_or_create_team_found [OF th]
        get_or_create_team_found [OF ta] insert_or_ignore_match_def skipped_insert_def)
qed

lemma all_cols_complete: "c \<in> set all_cols"
  by (cases c) (simp_all add: all_cols_def)

lemma no_updates_iff: "\<not> list_ex (\<lambda>c. u c \<noteq> None) all_cols \<longleftrightarrow> (\<forall>c. u c = None)"
  using all_cols_complete by (auto simp: list_ex_iff)

lemma apply_no_updates: "\<forall>c. u c = None \<Longrightarrow> apply_updates u g = g"
  by (simp add: apply_updates_def set_value_def)

lemma get_col_apply_updates:
  "get_col c (apply_updates u g) = (case u c of Some v \<Rightarrow> Some v | None \<Rightarrow> get_col c g)"
  by (cases c) (simp_all add: get_col_def apply_updates_def set_value_def split: option.split)

lemma find_group_map:
  assumes "\<And>g. g_season_id (f g) = g_season_id g \<and> g_category_id (f g) = g_category_id g
                \<and> g_code (f g) = g_code g"
  shows "find (\<lambda>g. g_season_id g = sid \<and> g_category_id g = cid \<and> g_code g = code) (map f gs)
         = map_option f
             (find (\<lambda>g. g_season_id g = sid \<and> g_category_id g = cid \<and> g_code g = code) gs)"
  by (induction gs) (simp_all add: assms)

lemma get_or_create_group_existing:
  assumes "find_group s sid cid code = Some row"
  shows "\<exists>s'. get_or_create_group s sid cid code kw = Inr (g_id row, s')
           \<and> find_group s' sid cid code = Some (apply_updates (updates kw) row)
           \<and> length (groups s') = length (groups s)"
proof (cases "list_ex (\<lambda>c. updates kw c \<noteq> None) all_cols")
  case True
  define f where
    "f = (\<lambda>g. if g_id g = g_id row then apply_updates (updates kw) g else g)"
  have keys: "\<And>g. g_season_id (f g) = g_season_id g \<and> g_category_id (f g) = g_category_id g
                \<and> g_code (f g) = g_code g"
    by (simp add: f_def apply_updates_def)
  have call: "get_or_create_group s sid cid code kw = Inr (g_id row, s\<lparr>groups := map f (groups s)\<rparr>)"
    using assms True by (simp add: get_or_create_group_def f_def Let_def)
  have "find_group (s\<lparr>groups := map f (groups s)\<rparr>) sid cid code = Some (f row)"
    using assms by (simp add: find_group_def find_group_map [OF keys])
  then show ?thesis
    using call by (simp add: f_def)
next
  case False
  then have none: "\<forall>c. updates kw c = None"
    using no_updates_iff [of "updates kw"] by blast
  have "get_or_create_group s sid cid code kw = Inr (g_id row, s)"
    using assms False by (simp add: get_or_create_group_def Let_def)
  then show ?thesis
    using assms by (simp add: apply_no_updates [OF none])
qed

text \<open>
  C8. For a group that exists under the natural key (season, category, code), the group
  upsert succeeds, returns the identifier of that group, and patches only what the call
  provides: every column whose keyword is absent or passed as \<^verbatim>\<open>None\<close> keeps the value
  stored before the call, and every column passed with a value holds that value
  afterwards. No row is added.
\<close>

theorem get_or_create_group_patch:
  "find_group s sid cid code = Some row \<Longrightarrow>
   \<exists>s' row'. get_or_create_group s sid cid code kw = Inr (g_id row, s')
     \<and> find_group s' sid cid code = Some row'
     \<and> g_id row' = g_id row
     \<and> length (groups s') = length (groups s)
     \<and> (\<forall>c. kw c = None \<or> kw c = Some None \<longrightarrow> get_col c row' = get_col c row)
     \<and> (\<forall>c v. kw c = Some (Some v) \<longrightarrow> get_col c row' = Some v)"
proof -
  assume found: "find_group s sid cid code = Some row"
  from get_or_create_group_existing [OF found, of kw]
  obtain s' where call: "get_or_create_group s sid cid code kw = Inr (g_id row, s')"
    and after: "find_group s' sid cid code = Some (apply_updates (updates kw) row)"
    and len: "length (groups s') = length (groups s)"
    by blast
  have same_id: "g_id (apply_updates (updates kw) row) = g_id row"
    by (simp add: apply_updates_def)
  have kept: "\<forall>c. kw c = None \<or> kw c = Some None \<longrightarrow>
                get_col c (apply_updates (updates kw) row) = get_col c row"
    by (auto simp: get_col_apply_updates updates_def)
  have patched: "\<forall>c v. kw c = Some (Some v) \<longrightarrow>
                   get_col c (apply_updates (updates kw) row) = Some v"
    by (auto simp: get_col_apply_updates updates_def)
  show ?thesis
    using call after len same_id kept patched by blast
qed

lemma find_by_key_distinct:
  "distinct (map f xs) \<Longrightarrow> x \<in> set xs \<Longrightarrow> find (\<lambda>y. f y = f x) xs = Some x"
  by (induction xs) (auto simp: image_iff)

lemma find_Some_mem: "find P xs = Some x \<Longrightarrow> x \<in> set xs \<and> P x"
  by (induction xs) (auto split: if_splits)

lemma find_append_Some: "find P xs = Some x \<Longrightarrow> find P (xs @ ys) = Some x"
  by (induction xs) (auto split: if_splits)

lemma find_append_None: "find P xs = None \<Longrightarrow> find P (xs @ ys) = find P ys"
  by (induction xs) (auto split: if_splits)

lemma find_None_notin: "x \<notin> f ` set xs \<Longrightarrow> find (\<lambda>y. f y = x) xs = None"
  by (induction xs) auto

lemma get_or_create_team_cases:
  assumes "get_or_create_team s n None = (tid, s1)"
  shows "(\<exists>row. find_team s n = Some row \<and> tid = t_id row \<and> s1 = s)
       \<or> (find_team s n = None \<and> tid \<notin> t_id ` set (teams s)
          \<and> s1 = s\<lparr>teams := teams s @ [\<lparr>t_id = tid, t_name = n, t_shield = None\<rparr>],
                    teams_seq := tid\<rparr>)"
proof (cases "find_team s n")
  case None
  then show ?thesis
    using assms next_rowid_fresh [of "map t_id (teams s)" "teams_seq s"]
    by (auto simp: get_or_create_team_def Let_def)
next
  case (Some row)
  then show ?thesis
    using assms by (simp add: get_or_create_team_found)
qed

lemma get_or_create_team_facts:
  assumes call: "get_or_create_team s n None = (tid, s1)"
    and pk: "distinct (map t_id (teams s))"
  shows "distinct (map t_id (teams s1))"
    and "team_name_of s1 tid = Some n"
    and "\<And>i m. team_name_of s i = Some m \<Longrightarrow> team_name_of s1 i = Some m"
    and "standings s1 = standings s"
    and "standings_seq s1 = standings_seq s"
    and "groups s1 = groups s"
    and "tid \<in> set (map t_id (teams s1))"
proof -
  from get_or_create_team_cases [OF call]
  have "distinct (map t_id (teams s1)) \<and> team_name_of s1 tid = Some n
      \<and> (\<forall>i m. team_name_of s i = Some m \<longrightarrow> team_name_of s1 i = Some m)
      \<and> standings s1 = standings s \<and> standings_seq s1 = standings_seq s
      \<and> groups s1 = groups s \<and> tid \<in> set (map t_id (teams s1))"
  proof (elim disjE exE conjE)
    fix row
    assume old: "find_team s n = Some row" "tid = t_id row" "s1 = s"
    from old(1) have mem: "row \<in> set (teams s)" and nm: "t_name row = n"
      using find_Some_mem [of "\<lambda>t. t_name t = n" "teams s" row] by (simp_all add: find_team_def)
    have "find (\<lambda>t. t_id t = t_id row) (teams s) = Some row"
      using find_by_key_distinct [OF pk mem] .
    then show ?thesis
      using old pk mem nm by (simp add: team_name_of_def)
  next
    assume new: "find_team s n = None" "tid \<notin> t_id ` set (teams s)"
        "s1 = s\<lparr>teams := teams s @ [\<lparr>t_id = tid, t_name = n, t_shield = None\<rparr>], teams_seq := tid\<rparr>"
    have a: "find (\<lambda>t. t_id t = tid) (teams s) = None"
      using new(2) by (rule find_None_notin)
    have b: "team_name_of s1 tid = Some n"
      by (simp add: team_name_of_def new(3) find_append_None [OF a])
    have c: "\<forall>i m. team_name_of s i = Some m \<longrightarrow> team_name_of s1 i = Some m"
      by (auto simp: team_name_of_def new(3) find_append_Some)
    show ?thesis
      using new pk b c by simp
  qed
  then show "distinct (map t_id (teams s1))"
    and "team_name_of s1 tid = Some n"
    and "\<And>i m. team_name_of s i = Some m \<Longrightarrow> team_name_of s1 i = Some m"
    and "standings s1 = standings s"
    and "standings_seq s1 = standings_seq s"
    and "groups s1 = groups s"
    and "tid \<in> set (map t_id (teams s1))"
    by blast+
qed


lemma insert_standings_correct:
  assumes "distinct (map t_id (teams s))"
    and "gid \<in> set (map g_id (groups s))"
    and "distinct (map si_team rs)"
    and "\<forall>x \<in> set (standings_of s gid).
           \<exists>n. team_name_of s (st_team_id x) = Some n \<and> n \<notin> set (map si_team rs)"
  shows "\<exists>s'. insert_standings s gid rs = Inr s'
           \<and> map (standing_view s') (standings_of s' gid)
               = map (standing_view s) (standings_of s gid) @ map Some rs
           \<and> other_standings s' gid = other_standings s gid"
  using assms
proof (induction rs arbitrary: s)
  case Nil
  then show ?case by simp
next
  case (Cons r rs)
  obtain tid s1 where call: "get_or_create_team s (si_team r) None = (tid, s1)"
    by (cases "get_or_create_team s (si_team r) None") blast
  note f = get_or_create_team_facts [OF call Cons.prems(1)]
  have uniq: "\<not> list_ex (\<lambda>x. st_group_id x = gid \<and> st_team_id x = tid) (standings s1)"
  proof
    assume "list_ex (\<lambda>x. st_group_id x = gid \<and> st_team_id x = tid) (standings s1)"
    then obtain x where x: "x \<in> set (standings s)" "st_group_id x = gid" "st_team_id x = tid"
      by (auto simp: list_ex_iff f(4))
    then have "x \<in> set (standings_of s gid)"
      by (simp add: standings_of_def)
    with Cons.prems(4) obtain n where n: "team_name_of s (st_team_id x) = Some n"
      "n \<notin> set (map si_team (r # rs))"
      by blast
    from f(3) [OF n(1)] x(3) f(2) have "n = si_team r"
      by simp
    with n(2) show False
      by simp
  qed
  define x_r where "x_r =
    \<lparr>st_id = next_rowid (map st_id (standings s1)) (standings_seq s1), st_group_id = gid,
     st_team_id = tid, st_position = si_pos r, st_points = si_pts r, st_played = si_played r,
     st_won = si_won r, st_drawn = si_drawn r, st_lost = si_lost r, st_gf = si_gf r,
     st_gc = si_gc r, st_gd = si_gd r\<rparr>"
  define s2 where "s2 = s1\<lparr>standings := standings s1 @ [x_r], standings_seq := st_id x_r\<rparr>"
  have ins: "insert_standing s1 gid tid r = Inr s2"
    using uniq f(6,7) Cons.prems(2)
    by (simp add: insert_standing_def Let_def s2_def x_r_def)
  have step: "insert_standings s gid (r # rs) = insert_standings s2 gid rs"
    by (simp add: call ins)
  have name2: "\<And>i. team_name_of s2 i = team_name_of s1 i"
    by (simp add: team_name_of_def s2_def)
  have so2: "standings_of s2 gid = standings_of s gid @ [x_r]"
    by (simp add: standings_of_def s2_def f(4) x_r_def)
  have oth2: "other_standings s2 gid = other_standings s gid"
    by (simp add: other_standings_def s2_def f(4) x_r_def)
  have view_old: "map (standing_view s2) (standings_of s gid) = map (standing_view s) (standings_of s gid)"
  proof (rule map_cong [OF refl])
    fix x assume "x \<in> set (standings_of s gid)"
    with Cons.prems(4) obtain n where "team_name_of s (st_team_id x) = Some n"
      by blast
    from f(3) [OF this] this show "standing_view s2 x = standing_view s x"
      by (simp add: standing_view_def name2)
  qed
  have view_new: "standing_view s2 x_r = Some r"
    by (simp add: standing_view_def name2 f(2) x_r_def)
  have p1: "distinct (map t_id (teams s2))"
    using f(1) by (simp add: s2_def)
  have p2: "gid \<in> set (map g_id (groups s2))"
    using Cons.prems(2) f(6) by (simp add: s2_def)
  have p3: "distinct (map si_team rs)"
    using Cons.prems(3) by simp
  have p4: "\<forall>x \<in> set (standings_of s2 gid).
           \<exists>n. team_name_of s2 (st_team_id x) = Some n \<and> n \<notin> set (map si_team rs)"
  proof
    fix x assume "x \<in> set (standings_of s2 gid)"
    then consider "x \<in> set (standings_of s gid)" | "x = x_r"
      by (auto simp: so2)
    then show "\<exists>n. team_name_of s2 (st_team_id x) = Some n \<and> n \<notin> set (map si_team rs)"
    proof cases
      case 1
      with Cons.prems(4) obtain n where n: "team_name_of s (st_team_id x) = Some n"
        "n \<notin> set (map si_team (r # rs))"
        by blast
      from f(3) [OF n(1)] n(2) show ?thesis
        by (simp add: name2)
    next
      case 2
      then show ?thesis
        using f(2) Cons.prems(3) by (simp add: name2 x_r_def)
    qed
  qed
  from Cons.IH [OF p1 p2 p3 p4] obtain s' where s': "insert_standings s2 gid rs = Inr s'"
    "map (standing_view s') (standings_of s' gid)
       = map (standing_view s2) (standings_of s2 gid) @ map Some rs"
    "other_standings s' gid = other_standings s2 gid"
    by blast
  show ?case
    using s' step so2 oth2 view_old view_new by simp
qed

text \<open>
  C3 (as amended). In a store whose team identifiers are unique (the primary key), for
  every existing group and every new row set that names each team at most once, the
  standings replacement succeeds; afterwards the rows stored for the group, read back
  with their team names, are exactly the new rows in their order, so that no row of the
  prior snapshot is left, and the rows of every other group are the ones stored before.
\<close>

theorem replace_standings_exact:
  "distinct (map t_id (teams s)) \<Longrightarrow> gid \<in> set (map g_id (groups s)) \<Longrightarrow>
   distinct (map si_team R) \<Longrightarrow>
   \<exists>s'. replace_standings s gid R = Inr s'
     \<and> map (standing_view s') (standings_of s' gid) = map Some R
     \<and> other_standings s' gid = other_standings s gid"
proof -
  assume pk: "distinct (map t_id (teams s))" and grp: "gid \<in> set (map g_id (groups s))"
    and dist: "distinct (map si_team R)"
  define s0 where "s0 = s\<lparr>standings := filter (\<lambda>x. st_group_id x \<noteq> gid) (standings s)\<rparr>"
  have empty: "standings_of s0 gid = []"
    by (simp add: standings_of_def s0_def)
  have oth: "other_standings s0 gid = other_standings s gid"
    by (simp add: other_standings_def s0_def)
  have "\<exists>s'. insert_standings s0 gid R = Inr s'
           \<and> map (standing_view s') (standings_of s' gid)
               = map (standing_view s0) (standings_of s0 gid) @ map Some R
           \<and> other_standings s' gid = other_standings s0 gid"
    using pk grp dist by (intro insert_standings_correct) (simp_all add: s0_def standings_of_def)
  then show ?thesis
    by (simp add: replace_standings_def s0_def [symmetric] empty oth)
qed

theorem get_or_create_team_idempotent_witness:
  "fst (get_or_create_team example_store ''Las Palmas'' (Some ''lp.png'')) = 4
   \<and> get_or_create_team (snd (get_or_create_team example_store ''Las Palmas'' (Some ''lp.png'')))
      ''Las Palmas'' (Some ''lp.png'')
     = (4, snd (get_or_create_team example_store ''Las Palmas'' (Some ''lp.png'')))
   \<and> length (rows_named ''Las Palmas''
        (snd (get_or_create_team example_store ''Las Palmas'' (Some ''lp.png'')))) = 1"
proof -
  define x where "x = get_or_create_team example_store ''Las Palmas'' (Some ''lp.png'')"
  have a: "fst x = 4"
    by (simp add: x_def get_or_create_team_def find_team_def example_store_def next_rowid_def)
  have b: "rows_named ''Las Palmas'' example_store = []"
    by (simp add: rows_named_def example_store_def)
  note t = get_or_create_team_idempotent [of example_store "''Las Palmas''" "Some ''lp.png''",
      folded x_def]
  from t have e: "get_or_create_team (snd x) ''Las Palmas'' (Some ''lp.png'') = (fst x, snd x)"
    by blast
  from t have "length (rows_named ''Las Palmas''
      (snd (get_or_create_team (snd x) ''Las Palmas'' (Some ''lp.png''))))
      = max 1 (length (rows_named ''Las Palmas'' example_store))"
    by blast
  then have l: "length (rows_named ''Las Palmas'' (snd x)) = 1"
    unfolding e b by simp
  show ?thesis
    using a e l unfolding x_def by simp
qed

theorem match_upsert_existing_rows_kept_witness:
  "match_present example_store 1 ''Jornada 3'' ''Arucas'' ''Telde''
   \<and> upsert_match_category example_store 1 (Some ''Jornada 3'')
        \<lparr>cm_date = Some ''08/03'', cm_time = Some ''12:00'', cm_home = ''Arucas'',
         cm_away = ''Telde'', cm_hs = Some 3, cm_as = Some 1, cm_venue = Some ''Campo Municipal''\<rparr>
       = Inr (example_store\<lparr>matches_seq := 2\<rparr>)
   \<and> upsert_match_history example_store 1 ''Jornada 3''
        \<lparr>hm_date = ''08/03'', hm_home = ''Arucas'', hm_away = ''Telde'', hm_hs = Some 3,
         hm_as = Some 1\<rparr>
       = Inr (example_store\<lparr>matches_seq := 2\<rparr>)
   \<and> matches (example_store\<lparr>matches_seq := 2\<rparr>) = matches example_store"
proof -
  have h: "match_present example_store 1 ''Jornada 3'' ''Arucas'' ''Telde''"
    by (simp add: match_present_def find_team_def match_exists_def example_store_def)
  have n: "next_rowid (map m_id (matches example_store)) (matches_seq example_store) = 2"
    by (simp add: next_rowid_def example_store_def)
  show ?thesis
    using h n match_upsert_existing_rows_kept [of example_store 1 "''Jornada 3''"
        "\<lparr>cm_date = Some ''08/03'', cm_time = Some ''12:00'', cm_home = ''Arucas'',
         cm_away = ''Telde'', cm_hs = Some 3, cm_as = Some 1, cm_venue = Some ''Campo Municipal''\<rparr>"
        "\<lparr>hm_date = ''08/03'', hm_home = ''Arucas'', hm_away = ''Telde'', hm_hs = Some 3,
         hm_as = Some 1\<rparr>"]
    by simp
qed

text \<open>
  The store after an upsert of an existing match is not the store before it: the counter
  of \<^verbatim>\<open>matches\<close> was 1 and is 2.
\<close>

theorem match_upsert_existing_moves_counter:
  "matches_seq example_store = 1
   \<and> upsert_match_category example_store 1 (Some ''Jornada 3'')
        \<lparr>cm_date = Some ''08/03'', cm_time = Some ''12:00'', cm_home = ''Arucas'',
         cm_away = ''Telde'', cm_hs = Some 3, cm_as = Some 1, cm_venue = Some ''Campo Municipal''\<rparr>
       \<noteq> Inr example_store"
proof -
  have a: "matches_seq example_store = 1"
    by (simp add: example_store_def)
  have "matches_seq (skipped_insert example_store) = 2"
    by (simp add: skipped_insert_def next_rowid_def example_store_def)
  then have b: "skipped_insert example_store \<noteq> example_store"
    using a by auto
  have "upsert_match_category example_store 1 (Some ''Jornada 3'')
        \<lparr>cm_date = Some ''08/03'', cm_time = Some ''12:00'', cm_home = ''Arucas'',
         cm_away = ''Telde'', cm_hs = Some 3, cm_as = Some 1, cm_venue = Some ''Campo Municipal''\<rparr>
       = Inr (skipped_insert example_store)"
    by (simp add: upsert_match_category_def get_or_create_team_def find_team_def truthy_def
        insert_or_ignore_match_def match_exists_def example_store_def)
  then show ?thesis
    using a b by simp
qed

theorem get_or_create_group_patch_witness:
  "find_group example_store 1 1 ''A2'' = Some (hd (groups example_store))
   \<and> (\<exists>s' row'. get_or_create_group example_store 1 1 ''A2'' example_kwargs = Inr (1, s')
        \<and> find_group s' 1 1 ''A2'' = Some row'
        \<and> g_url row' = Some ''https://example.org/a2''
        \<and> g_phase row' = Some ''Segunda Fase A''
        \<and> g_name row' = Some ''Grupo II''
        \<and> g_current_jornada row' = Some ''Jornada 4'')"
proof -
  have h: "find_group example_store 1 1 ''A2'' = Some (hd (groups example_store))"
    by (simp add: find_group_def example_store_def)
  from get_or_create_group_patch [OF h, of example_kwargs]
  obtain s' row' where r: "get_or_create_group example_store 1 1 ''A2'' example_kwargs
        = Inr (g_id (hd (groups example_store)), s')"
    "find_group s' 1 1 ''A2'' = Some row'"
    "\<forall>c. example_kwargs c = None \<or> example_kwargs c = Some None \<longrightarrow>
        get_col c row' = get_col c (hd (groups example_store))"
    "\<forall>c v. example_kwargs c = Some (Some v) \<longrightarrow> get_col c row' = Some v"
    by blast
  have id: "g_id (hd (groups example_store)) = 1"
    by (simp add: example_store_def)
  from r(3) have "get_col Url row' = get_col Url (hd (groups example_store))"
    "get_col Phase row' = get_col Phase (hd (groups example_store))"
    by (simp_all add: example_kwargs_def)
  then have kept: "g_url row' = Some ''https://example.org/a2''"
    "g_phase row' = Some ''Segunda Fase A''"
    by (simp_all add: get_col_def example_store_def)
  from r(4) have "get_col Name row' = Some ''Grupo II''"
    "get_col Current_jornada row' = Some ''Jornada 4''"
    by (simp_all add: example_kwargs_def)
  then have set: "g_name row' = Some ''Grupo II''" "g_current_jornada row' = Some ''Jornada 4''"
    by (simp_all add: get_col_def)
  show ?thesis
    using h r(1,2) id kept set by auto
qed

theorem replace_standings_exact_witness:
  "distinct (map t_id (teams example_store))
   \<and> 1 \<in> set (map g_id (groups example_store))
   \<and> distinct (map si_team [example_row ''Telde'' 1 9, example_row ''Firgas'' 2 4])
   \<and> (\<exists>s'. replace_standings example_store 1
                [example_row ''Telde'' 1 9, example_row ''Firgas'' 2 4] = Inr s'
          \<and> map (standing_view s') (standings_of s' 1)
              = [Some (example_row ''Telde'' 1 9), Some (example_row ''Firgas'' 2 4)]
          \<and> other_standings s' 1 = other_standings example_store 1)"
proof -
  have a: "distinct (map t_id (teams example_store))"
    by (simp add: example_store_def)
  have b: "1 \<in> set (map g_id (groups example_store))"
    by (simp add: example_store_def)
  have c: "distinct (map si_team [example_row ''Telde'' 1 9, example_row ''Firgas'' 2 4])"
    by (simp add: example_row_def)
  show ?thesis
    using a b c replace_standings_exact [OF a b c] by simp
qed

text \<open>
  A row set that names a team twice is refused: the second \<^verbatim>\<open>INSERT\<close> meets
  \<^verbatim>\<open>UNIQUE(group_id, team_id)\<close> and raises.
\<close>

theorem replace_standings_duplicate_team:
  "replace_standings example_store 1 [example_row ''Telde'' 1 9, example_row ''Telde'' 2 4]
     = Inl IntegrityError"
  by (simp add: replace_standings_def get_or_create_team_def find_team_def truthy_def
      insert_standing_def next_rowid_def example_store_def example_row_def Let_def)

section \<open>Properties of the derived views\<close>

lemma js_insert_insort_key:
  "(\<And>y. y \<in> set ys \<Longrightarrow> (cmp x y \<le> 0) = (key x \<le> key y)) \<Longrightarrow>
   js_insert cmp x ys = insort_key key x ys"
  by (induction ys) simp_all

lemma js_sort_sort_key:
  "(\<And>x y. x \<in> set xs \<Longrightarrow> y \<in> set xs \<Longrightarrow> (cmp x y \<le> 0) = (key x \<le> key y)) \<Longrightarrow>
   js_sort cmp xs = sort_key key xs"
proof (induction xs)
  case Nil
  then show ?case by (simp add: js_sort_def)
next
  case (Cons x xs)
  have tl: "js_sort cmp xs = sort_key key xs"
    using Cons.prems by (intro Cons.IH) simp_all
  have "js_insert cmp x (sort_key key xs) = insort_key key x (sort_key key xs)"
    using Cons.prems by (intro js_insert_insort_key) simp
  then show ?case
    using tl by (simp add: js_sort_def)
qed

subsection \<open>getTeamForm\<close>

text \<open>
  C5 (as amended). When the scored matches of a team in a group, seen from the team and in
  matchday order, are the seven results W, L, D, W, W, L, D, the form with window 5, given
  or taken by default, is the last five of them, oldest first: D, W, W, L, D.
\<close>

theorem getTeamForm_last_five:
  "map_of H groupId = Some hist \<Longrightarrow>
   map fe_result (team_history localeCompare hist teamName) = [W, L, D, W, W, L, D] \<Longrightarrow>
   map fe_result (getTeamForm localeCompare (Some H) teamName groupId (Some 5)) = [D, W, W, L, D]
   \<and> map fe_result (getTeamForm localeCompare (Some H) teamName groupId None) = [D, W, W, L, D]"
proof -
  assume grp: "map_of H groupId = Some hist"
    and res: "map fe_result (team_history localeCompare hist teamName) = [W, L, D, W, W, L, D]"
  have len: "length (team_history localeCompare hist teamName) = 7"
    using arg_cong [OF res, of length] by simp
  have "map fe_result (slice_last 5 (team_history localeCompare hist teamName))
        = drop 2 (map fe_result (team_history localeCompare hist teamName))"
    by (simp add: slice_last_def len drop_map)
  then show ?thesis
    using grp res by (simp add: getTeamForm_def)
qed

theorem getTeamForm_last_five_witness:
  "map_of example_history ''A2'' = Some (snd (hd example_history))
   \<and> map fe_result (team_history code_unit_compare (snd (hd example_history)) ''T'')
       = [W, L, D, W, W, L, D]
   \<and> map fe_result (getTeamForm code_unit_compare (Some example_history) ''T'' ''A2'' (Some 5))
       = [D, W, W, L, D]"
proof -
  have a: "map_of example_history ''A2'' = Some (snd (hd example_history))"
    by (simp add: example_history_def)
  have b: "map fe_result (team_history code_unit_compare (snd (hd example_history)) ''T'')
       = [W, L, D, W, W, L, D]"
    by code_simp
  show ?thesis
    using a b getTeamForm_last_five [OF a b] by simp
qed

text \<open>
  On the seven results W, L, D, W, W, L, D the form with window 5 is not L, W, W, L, D.
\<close>

theorem getTeamForm_not_LWWLD:
  "map fe_result (team_history code_unit_compare (snd (hd example_history)) ''T'')
     = [W, L, D, W, W, L, D]
   \<and> map fe_result (getTeamForm code_unit_compare (Some example_history) ''T'' ''A2'' (Some 5))
     \<noteq> [L, W, W, L, D]"
  by code_simp

subsection \<open>Global scorer ranking\<close>

lemma scorer_cmp_key: "(scorer_cmp a b \<le> 0) = (scorer_key a \<le> scorer_key b)"
  by (auto simp: scorer_cmp_def scorer_key_def less_eq_prod_def)

lemma ranks_before_key: "ranks_before a b = (scorer_key a \<le> scorer_key b)"
  by (auto simp: ranks_before_def scorer_key_def less_eq_prod_def)

lemma js_sort_scorers: "js_sort scorer_cmp xs = sort_key scorer_key xs"
  by (rule js_sort_sort_key) (rule scorer_cmp_key)

lemma sorted_ranking: "sorted_wrt ranks_before (js_sort scorer_cmp xs)"
proof -
  have "sorted (map scorer_key (sort_key scorer_key xs))"
    by simp
  then have "sorted_wrt (\<lambda>a b. scorer_key a \<le> scorer_key b) (sort_key scorer_key xs)"
    by (simp add: sorted_map)
  then show ?thesis
    by (simp add: js_sort_scorers ranks_before_key [abs_def])
qed

lemma set_merge_scorers:
  "set (merge_scorers golData) =
     {tag_scorer (gg_g g) s | g s. g \<in> set golData \<and> s \<in> set (gg_s g)}"
  by (auto simp: merge_scorers_def)

text \<open>
  C6. The global ranking holds the merged rows, each tagged with the name of its group,
  in the order goals descending, then games ascending, cut after thirty rows: together
  with the rows left out it is a rearrangement of the merged rows that is sorted in that
  order. The scorers P1 (5 goals, 3 games), P2 (5 goals, 2 games) and P3 (7 goals, 4
  games) come out as P3, P2, P1.
\<close>

theorem global_scorers_ranking:
  "gol_table_rows golData ''__GLOBAL__'' = global_scorers golData
   \<and> set (merge_scorers golData)
       = {tag_scorer (gg_g g) s | g s. g \<in> set golData \<and> s \<in> set (gg_s g)}
   \<and> length (merge_scorers golData) = sum_list (map (\<lambda>g. length (gg_s g)) golData)
   \<and> (\<exists>rest. mset (global_scorers golData @ rest) = mset (merge_scorers golData)
         \<and> sorted_wrt ranks_before (global_scorers golData @ rest))
   \<and> length (global_scorers golData) = min 30 (length (merge_scorers golData))
   \<and> map sr_name (global_scorers example_gol) = [''P3'', ''P2'', ''P1'']"
proof -
  define ys where "ys = js_sort scorer_cmp (merge_scorers golData)"
  have perm: "mset ys = mset (merge_scorers golData)"
    by (simp add: ys_def js_sort_scorers)
  have srt: "sorted_wrt ranks_before ys"
    by (simp add: ys_def sorted_ranking)
  have split: "global_scorers golData @ drop 30 ys = ys"
    by (simp add: global_scorers_def ys_def)
  have ex: "\<exists>rest. mset (global_scorers golData @ rest) = mset (merge_scorers golData)
         \<and> sorted_wrt ranks_before (global_scorers golData @ rest)"
    using perm srt split by metis
  have len: "length (global_scorers golData) = min 30 (length (merge_scorers golData))"
    using arg_cong [OF perm, of size] by (simp add: global_scorers_def ys_def min.commute)
  have cnt: "length (merge_scorers golData) = sum_list (map (\<lambda>g. length (gg_s g)) golData)"
    by (simp add: merge_scorers_def length_concat comp_def)
  have example: "map sr_name (global_scorers example_gol) = [''P3'', ''P2'', ''P1'']"
    by code_simp
  show ?thesis
    using ex len cnt example set_merge_scorers [of golData] by (simp add: gol_table_rows_def)
qed

theorem global_scorers_ranking_witness:
  "map sr_name (gol_table_rows example_gol ''__GLOBAL__'') = [''P3'', ''P2'', ''P1'']
   \<and> map sr_group (gol_table_rows example_gol ''__GLOBAL__'') = [''Grupo 2'', ''Grupo 1'', ''Grupo 1'']
   \<and> length (global_scorers example_gol) = 3"
proof -
  have a: "map sr_group (global_scorers example_gol) = [''Grupo 2'', ''Grupo 1'', ''Grupo 1'']"
    by code_simp
  have b: "length (merge_scorers example_gol) = 3"
    by code_simp
  show ?thesis
    using global_scorers_ranking [of example_gol] a b by simp
qed

subsection \<open>Matchday order\<close>




















subsection \<open>Section tabs\<close>

lemma renderJornadaContent_frame:
  "S_cat (renderJornadaContent dat S) = S_cat S
   \<and> S_search (renderJornadaContent dat S) = S_search S
   \<and> S_section (renderJornadaContent dat S) = S_section S
   \<and> S_jorGroup (renderJornadaContent dat S) = S_jorGroup S
   \<and> S_golGroup (renderJornadaContent dat S) = S_golGroup S
   \<and> S_island (renderJornadaContent dat S) = S_island S"
  by (simp add: renderJornadaContent_def Let_def split: option.split)

lemma renderJornadas_frame:
  "S_cat (renderJornadas dat S) = S_cat S
   \<and> S_search (renderJornadas dat S) = S_search S
   \<and> S_section (renderJornadas dat S) = S_section S
   \<and> S_golGroup (renderJornadas dat S) = S_golGroup S
   \<and> S_island (renderJornadas dat S) = S_island S
   \<and> (S_jorGroup S \<noteq> [] \<longrightarrow> S_jorGroup (renderJornadas dat S) = S_jorGroup S)"
  by (simp add: renderJornadas_def Let_def renderJornadaContent_frame split: list.split)

lemma renderGoleadores_frame:
  "S_cat (renderGoleadores dat S) = S_cat S
   \<and> S_search (renderGoleadores dat S) = S_search S
   \<and> S_section (renderGoleadores dat S) = S_section S
   \<and> S_jorGroup (renderGoleadores dat S) = S_jorGroup S
   \<and> S_jorNum (renderGoleadores dat S) = S_jorNum S
   \<and> S_island (renderGoleadores dat S) = S_island S
   \<and> (S_golGroup S \<noteq> [] \<longrightarrow> S_golGroup (renderGoleadores dat S) = S_golGroup S)"
  by (simp add: renderGoleadores_def Let_def)

lemma renderIsla_frame:
  "S_cat (renderIsla dat S) = S_cat S
   \<and> S_search (renderIsla dat S) = S_search S
   \<and> S_section (renderIsla dat S) = S_section S
   \<and> S_jorGroup (renderIsla dat S) = S_jorGroup S
   \<and> S_jorNum (renderIsla dat S) = S_jorNum S
   \<and> S_golGroup (renderIsla dat S) = S_golGroup S
   \<and> (S_island S \<in> set (map gd_island (getData dat S)) \<longrightarrow>
        S_island (renderIsla dat S) = S_island S)"
  by (simp add: renderIsla_def)

lemma section_click_keeps:
  "S_section (section_click dat S target) = target
   \<and> S_cat (section_click dat S target) = S_cat S
   \<and> S_search (section_click dat S target) = S_search S
   \<and> (target \<noteq> Jornadas \<longrightarrow>
        S_jorGroup (section_click dat S target) = S_jorGroup S
        \<and> S_jorNum (section_click dat S target) = S_jorNum S)
   \<and> (target \<noteq> Goleadores \<longrightarrow> S_golGroup (section_click dat S target) = S_golGroup S)
   \<and> (target \<noteq> Isla \<longrightarrow> S_island (section_click dat S target) = S_island S)
   \<and> (S_jorGroup S \<noteq> [] \<longrightarrow> S_jorGroup (section_click dat S target) = S_jorGroup S)
   \<and> (S_golGroup S \<noteq> [] \<longrightarrow> S_golGroup (section_click dat S target) = S_golGroup S)
   \<and> (S_island S \<in> set (map gd_island (getData dat S)) \<longrightarrow>
        S_island (section_click dat S target) = S_island S)
   \<and> section_click dat S Jornadas = section_click dat (S\<lparr>S_jorNum := jn\<rparr>) Jornadas"
proof (cases target)
  case Clasif
  then show ?thesis
    by (simp add: section_click_def renderSection_def)
next
  case Jornadas
  define S2 where "S2 = S\<lparr>S_section := Jornadas, S_jorNum := []\<rparr>"
  have c: "section_click dat S Jornadas = renderJornadas dat S2"
    by (simp add: section_click_def renderSection_def S2_def)
  have d: "section_click dat (S\<lparr>S_jorNum := jn\<rparr>) Jornadas = renderJornadas dat S2"
    by (simp add: section_click_def renderSection_def S2_def)
  have g: "getData dat S2 = getData dat S"
    by (simp add: getData_def S2_def)
  show ?thesis
    unfolding Jornadas c d using renderJornadas_frame [of dat S2]
    by (simp add: S2_def)
next
  case Goleadores
  define S2 where "S2 = S\<lparr>S_section := Goleadores\<rparr>"
  have c: "section_click dat S Goleadores = renderGoleadores dat S2"
    by (simp add: section_click_def renderSection_def S2_def)
  have d: "section_click dat S Jornadas = section_click dat (S\<lparr>S_jorNum := jn\<rparr>) Jornadas"
    by (simp add: section_click_def)
  show ?thesis
    unfolding Goleadores c using renderGoleadores_frame [of dat S2] d
    by (simp add: S2_def)
next
  case Isla
  define S2 where "S2 = S\<lparr>S_section := Isla\<rparr>"
  have c: "section_click dat S Isla = renderIsla dat S2"
    by (simp add: section_click_def renderSection_def S2_def)
  have d: "section_click dat S Jornadas = section_click dat (S\<lparr>S_jorNum := jn\<rparr>) Jornadas"
    by (simp add: section_click_def)
  have g: "getData dat S2 = getData dat S"
    by (simp add: getData_def S2_def)
  show ?thesis
    unfolding Isla c using renderIsla_frame [of dat S2] d g
    by (simp add: S2_def)
qed

lemma renderJornadaContent_empty_jorNum:
  assumes "S_jorNum S = []" and "S_jorGroup S \<noteq> []"
  shows "S_jorNum (renderJornadaContent dat S) =
     (case find (\<lambda>g. gd_id g = S_jorGroup S) (getData dat S) of
        None \<Rightarrow> []
      | Some grp \<Rightarrow>
          (case HISTORY dat of
             None \<Rightarrow> []
           | Some H \<Rightarrow>
               (case map_of H (S_jorGroup S) of
                  None \<Rightarrow> []
                | Some hist \<Rightarrow>
                    if sorted_jornadas hist = [] then [] else last (sorted_jornadas hist))))"
  using assms by (simp add: renderJornadaContent_def Let_def split: option.split)

lemma jornadas_click_jorGroup:
  "S_jorGroup (section_click dat S Jornadas) =
     (if S_jorGroup S \<noteq> [] then S_jorGroup S
      else case getData dat S of [] \<Rightarrow> [] | g # _ \<Rightarrow> gd_id g)"
  by (simp add: section_click_def renderSection_def renderJornadas_def Let_def getData_def
      renderJornadaContent_frame split: list.split)

lemma jornadas_click_jorNum:
  "S_jorNum (section_click dat S Jornadas) =
     (if S_jorGroup (section_click dat S Jornadas) = [] then []
      else case find (\<lambda>g. gd_id g = S_jorGroup (section_click dat S Jornadas)) (getData dat S) of
        None \<Rightarrow> []
      | Some grp \<Rightarrow>
          (case HISTORY dat of
             None \<Rightarrow> []
           | Some H \<Rightarrow>
               (case map_of H (S_jorGroup (section_click dat S Jornadas)) of
                  None \<Rightarrow> []
                | Some hist \<Rightarrow>
                    if sorted_jornadas hist = [] then [] else last (sorted_jornadas hist))))"
proof -
  define S2 where "S2 = S\<lparr>S_section := Jornadas, S_jorNum := []\<rparr>"
  define S3 where "S3 = (if S_jorGroup S2 = []
                then (case getData dat S2 of [] \<Rightarrow> S2 | g # _ \<Rightarrow> S2\<lparr>S_jorGroup := gd_id g\<rparr>)
                else S2)"
  have c0: "section_click dat S Jornadas = renderJornadas dat S2"
    by (simp add: section_click_def renderSection_def S2_def)
  have "renderJornadas dat S2 = (if S_jorGroup S3 \<noteq> [] then renderJornadaContent dat S3 else S3)"
    by (simp add: renderJornadas_def S3_def Let_def)
  with c0 have c: "section_click dat S Jornadas
           = (if S_jorGroup S3 \<noteq> [] then renderJornadaContent dat S3 else S3)"
    by simp
  have n2: "S_jorNum S2 = []" and cat2: "S_cat S2 = S_cat S"
    by (simp_all add: S2_def)
  have n: "S_jorNum S3 = []"
    using n2 by (simp add: S3_def split: list.split)
  have "S_cat S3 = S_cat S"
    using cat2 by (simp add: S3_def split: list.split)
  then have g: "getData dat S3 = getData dat S"
    by (simp add: getData_def)
  show ?thesis
  proof (cases "S_jorGroup S3 = []")
    case True
    then show ?thesis
      using n by (simp add: c)
  next
    case False
    have grp: "S_jorGroup (renderJornadaContent dat S3) = S_jorGroup S3"
      using renderJornadaContent_frame [of dat S3] by simp
    have eqg: "S_jorGroup (section_click dat S Jornadas) = S_jorGroup S3"
      using False grp by (simp add: c)
    have "S_jorNum (section_click dat S Jornadas) = S_jorNum (renderJornadaContent dat S3)"
      using False by (simp add: c)
    then show ?thesis
      unfolding eqg using False renderJornadaContent_empty_jorNum [OF n False, of dat]
      by (simp add: g)
  qed
qed

lemma goleadores_click_golGroup:
  "S_golGroup (section_click dat S Goleadores) =
     (if S_golGroup S = [] \<and> (if S_cat S = ''benjamin'' then GOL_BENJ dat else GOL_PREBENJ dat) \<noteq> []
      then ''__GLOBAL__'' else S_golGroup S)"
  by (simp add: section_click_def renderSection_def renderGoleadores_def Let_def)

lemma isla_click_island:
  "S_island (section_click dat S Isla) =
     (if S_island S \<in> set (map gd_island (getData dat S)) then S_island S
      else case getData dat S of
             [] \<Rightarrow> ''grancanaria''
           | g # _ \<Rightarrow> if gd_island g = [] then ''grancanaria'' else gd_island g)"
  by (simp add: section_click_def renderSection_def renderIsla_def getData_def)

text \<open>
  C9 (as amended). A section tab sets the active section and leaves the category and the
  search term as they were. The selected matchday group, the selected matchday, the scorer
  scope and the island keep their values on every transition whose target is not their own
  section. On entering the matchday section the matchday group is kept when one is
  selected and is otherwise the first group of the category, if there is one; the matchday
  selected before is dropped, and the selected matchday is the last entry of the matchday
  list of the group's history when the group then selected is a group of the category with
  a history that has a matchday, and empty in every other case. On entering the scorer
  section the scope is kept, except that an empty scope becomes \<^verbatim>\<open>__GLOBAL__\<close> when the
  category has scorer data. On entering the island section the island is kept when a
  group of the category lies on it and is otherwise the island of the category's first
  group, or \<^verbatim>\<open>grancanaria\<close> when there is no group or its island is empty.
\<close>

theorem section_click_effect:
  "S_section (section_click dat S target) = target
   \<and> S_cat (section_click dat S target) = S_cat S
   \<and> S_search (section_click dat S target) = S_search S
   \<and> (target \<noteq> Jornadas \<longrightarrow>
        S_jorGroup (section_click dat S target) = S_jorGroup S
        \<and> S_jorNum (section_click dat S target) = S_jorNum S)
   \<and> (target \<noteq> Goleadores \<longrightarrow> S_golGroup (section_click dat S target) = S_golGroup S)
   \<and> (target \<noteq> Isla \<longrightarrow> S_island (section_click dat S target) = S_island S)
   \<and> S_jorGroup (section_click dat S Jornadas) =
        (if S_jorGroup S \<noteq> [] then S_jorGroup S
         else case getData dat S of [] \<Rightarrow> [] | g # _ \<Rightarrow> gd_id g)
   \<and> S_jorNum (section_click dat S Jornadas) =
        (if S_jorGroup (section_click dat S Jornadas) = [] then []
         else case find (\<lambda>g. gd_id g = S_jorGroup (section_click dat S Jornadas))
                     (getData dat S) of
           None \<Rightarrow> []
         | Some grp \<Rightarrow>
             (case HISTORY dat of
                None \<Rightarrow> []
              | Some H \<Rightarrow>
                  (case map_of H (S_jorGroup (section_click dat S Jornadas)) of
                     None \<Rightarrow> []
                   | Some hist \<Rightarrow>
                       if sorted_jornadas hist = [] then [] else last (sorted_jornadas hist))))
   \<and> S_golGroup (section_click dat S Goleadores) =
        (if S_golGroup S = []
            \<and> (if S_cat S = ''benjamin'' then GOL_BENJ dat else GOL_PREBENJ dat) \<noteq> []
         then ''__GLOBAL__'' else S_golGroup S)
   \<and> S_island (section_click dat S Isla) =
        (if S_island S \<in> set (map gd_island (getData dat S)) then S_island S
         else case getData dat S of
                [] \<Rightarrow> ''grancanaria''
              | g # _ \<Rightarrow> if gd_island g = [] then ''grancanaria'' else gd_island g)"
proof -
  note k = section_click_keeps [of dat S target]
  from k have k1: "S_section (section_click dat S target) = target"
    and k2: "S_cat (section_click dat S target) = S_cat S"
    and k3: "S_search (section_click dat S target) = S_search S"
    and k4: "target \<noteq> Jornadas \<longrightarrow>
        S_jorGroup (section_click dat S target) = S_jorGroup S
        \<and> S_jorNum (section_click dat S target) = S_jorNum S"
    and k5: "target \<noteq> Goleadores \<longrightarrow> S_golGroup (section_click dat S target) = S_golGroup S"
    and k6: "target \<noteq> Isla \<longrightarrow> S_island (section_click dat S target) = S_island S"
    by blast+
  show ?thesis
    by (intro conjI k1 k2 k3 k4 k5 k6 jornadas_click_jorGroup jornadas_click_jorNum
        goleadores_click_golGroup isla_click_island)
qed

theorem section_click_effect_witness:
  "S_search (section_click example_data example_state Goleadores) = ''tel''
   \<and> S_jorNum (section_click example_data example_state Goleadores) = ''Jornada 3''
   \<and> S_golGroup (section_click example_data example_state Isla) = ''Grupo 1''
   \<and> S_jorGroup (section_click example_data example_state Jornadas) = ''A2''
   \<and> S_jorNum (section_click example_data example_state Jornadas) = ''Jornada 10''
   \<and> S_island (section_click example_data example_state Isla) = ''grancanaria''"
proof -
  note g = section_click_effect [of example_data example_state Goleadores]
  note i = section_click_effect [of example_data example_state Isla]
  have a: "S_search (section_click example_data example_state Goleadores) = ''tel''"
    "S_jorNum (section_click example_data example_state Goleadores) = ''Jornada 3''"
    using g by (simp_all add: example_state_def)
  have b: "S_golGroup (section_click example_data example_state Isla) = ''Grupo 1''"
    using i by (simp add: example_state_def)
  have c: "S_jorGroup (section_click example_data example_state Jornadas) = ''A2''"
    using g by (simp add: example_state_def)
  have h: "find (\<lambda>g. gd_id g = ''A2'') (getData example_data example_state)
             = Some \<lparr>gd_id = ''A2'', gd_island = ''grancanaria'', gd_jornada = Some ''Jornada 8''\<rparr>"
    "HISTORY example_data = Some example_history"
    "map_of example_history ''A2'' = Some (snd (hd example_history))"
    by (simp_all add: getData_def example_data_def example_state_def example_history_def)
  have l: "sorted_jornadas (snd (hd example_history))
       = [''Jornada 1'', ''Jornada 2'', ''Jornada 3'', ''Jornada 4'', ''Jornada 5'',
          ''Jornada 6'', ''Jornada 7'', ''Jornada 8'', ''Jornada 10'']"
    by code_simp
  from g have "S_jorNum (section_click example_data example_state Jornadas) =
        (if S_jorGroup (section_click example_data example_state Jornadas) = [] then []
         else case find (\<lambda>g. gd_id g = S_jorGroup (section_click example_data example_state Jornadas))
                     (getData example_data example_state) of
           None \<Rightarrow> []
         | Some grp \<Rightarrow>
             (case HISTORY example_data of
                None \<Rightarrow> []
              | Some H \<Rightarrow>
                  (case map_of H (S_jorGroup (section_click example_data example_state Jornadas)) of
                     None \<Rightarrow> []
                   | Some hist \<Rightarrow>
                       if sorted_jornadas hist = [] then [] else last (sorted_jornadas hist))))"
    by blast
  then have d: "S_jorNum (section_click example_data example_state Jornadas) = ''Jornada 10''"
    unfolding c by (simp add: h l)
  from i have "S_island (section_click example_data example_state Isla) =
        (if S_island example_state \<in> set (map gd_island (getData example_data example_state))
         then S_island example_state
         else case getData example_data example_state of
                [] \<Rightarrow> ''grancanaria''
              | g # _ \<Rightarrow> if gd_island g = [] then ''grancanaria'' else gd_island g)"
    by blast
  then have e: "S_island (section_click example_data example_state Isla) = ''grancanaria''"
    by (simp add: getData_def example_data_def example_state_def)
  show ?thesis
    using a b c d e by simp
qed

text \<open>
  Entering the matchday section with matchday 3 selected leaves the latest matchday of the
  group selected.
\<close>

theorem section_click_resets_matchday:
  "S_jorNum example_state = ''Jornada 3''
   \<and> S_jorNum (section_click example_data example_state Jornadas) = ''Jornada 10''"
  by code_simp

section \<open>Properties of the service worker\<close>

lemma cache_lookup_put_same: "cache_lookup (cache_put cs name url r) name url = Some r"
  by (induction cs name url r rule: cache_put.induct) (simp_all add: cache_lookup_def)

lemma cache_lookup_put_other:
  "n \<noteq> name \<or> u \<noteq> url \<Longrightarrow>
   cache_lookup (cache_put cs name url r) n u = cache_lookup cs n u"
  by (induction cs name url r rule: cache_put.induct) (auto simp: cache_lookup_def)

text \<open>
  C2 (as amended). In the service worker that lists the data files (cache version
  20260302c) a data-file request is answered network-first: when the fetch is fulfilled
  the caller receives the network's response and the cache of the current name holds it
  for that request afterwards; when the fetch rejects the caller receives what the caches
  hold for the request, if anything, and the caches stay as they were. In sw.js of cache
  version 20260301, which has no branch for data files, a request that a cache can answer
  is answered from the cache whatever the network would return.
\<close>

theorem data_files_network_first:
  "(isDataFile url \<longrightarrow>
      fetch_listener origin index_url cs url (Fulfilled resp)
        = (Some resp, cache_put cs CACHE_NAME url resp)
      \<and> cache_lookup (cache_put cs CACHE_NAME url resp) CACHE_NAME url = Some resp
      \<and> fetch_listener origin index_url cs url Rejected = (caches_match cs url, cs))
   \<and> (caches_match cs url = Some cached \<longrightarrow>
      fetch_listener_20260301 origin index_url cs url net = (Some cached, cs))"
  by (simp add: fetch_listener_def network_first_def fetch_listener_20260301_def cache_first_def
      cache_lookup_put_same)

theorem data_files_network_first_witness:
  "isDataFile history_url
   \<and> fetch_listener example_origin index_url_example (example_caches CACHE_NAME) history_url
        (Fulfilled fresh_copy)
       = (Some fresh_copy, cache_put (example_caches CACHE_NAME) CACHE_NAME history_url fresh_copy)
   \<and> fetch_listener example_origin index_url_example (example_caches CACHE_NAME) history_url
        Rejected
       = (Some old_copy, example_caches CACHE_NAME)
   \<and> caches_match (example_caches CACHE_NAME_20260301) history_url = Some old_copy
   \<and> fetch_listener_20260301 example_origin index_url_example
        (example_caches CACHE_NAME_20260301) history_url Rejected
       = (Some old_copy, example_caches CACHE_NAME_20260301)"
proof -
  have a: "isDataFile history_url"
    by code_simp
  have b: "caches_match (example_caches CACHE_NAME) history_url = Some old_copy"
    by (simp add: example_caches_def)
  have c: "caches_match (example_caches CACHE_NAME_20260301) history_url = Some old_copy"
    by (simp add: example_caches_def)
  show ?thesis
    using a b c
      data_files_network_first [of history_url example_origin index_url_example
        "example_caches CACHE_NAME" fresh_copy old_copy Rejected]
      data_files_network_first [of history_url example_origin index_url_example
        "example_caches CACHE_NAME_20260301" fresh_copy old_copy Rejected]
    by simp
qed

text \<open>
  sw.js of cache version 20260301 answers the request for the history file from its cache
  although the network has a fresh copy, and keeps the earlier copy in the cache.
\<close>

theorem sw_20260301_serves_cached_data:
  "fst (fetch_listener_20260301 example_origin index_url_example
          (example_caches CACHE_NAME_20260301) history_url (Fulfilled fresh_copy)) = Some old_copy
   \<and> cache_lookup (snd (fetch_listener_20260301 example_origin index_url_example
          (example_caches CACHE_NAME_20260301) history_url (Fulfilled fresh_copy)))
        CACHE_NAME_20260301 history_url = Some old_copy
   \<and> old_copy \<noteq> fresh_copy"
  by (simp add: fetch_listener_20260301_def cache_first_def example_caches_def cache_lookup_def
      old_copy_def fresh_copy_def)

text \<open>
  C10. On the data-file path every fulfilled fetch response, of whatever status and from
  whatever origin, is returned to the caller and written into the cache of the current
  name for that request, over any copy stored there before; nothing else in the caches
  changes. What the caller receives does not depend on the caches then. The caches are
  consulted when the fetch rejects, and only read.
\<close>

theorem data_file_response_always_cached:
  "isDataFile url \<Longrightarrow>
   fst (fetch_listener origin index_url cs url (Fulfilled resp)) = Some resp
   \<and> cache_lookup (snd (fetch_listener origin index_url cs url (Fulfilled resp))) CACHE_NAME url
       = Some resp
   \<and> (n \<noteq> CACHE_NAME \<or> u \<noteq> url \<longrightarrow>
        cache_lookup (snd (fetch_listener origin index_url cs url (Fulfilled resp))) n u
          = cache_lookup cs n u)
   \<and> fst (fetch_listener origin index_url cs' url (Fulfilled resp)) = Some resp
   \<and> fetch_listener origin index_url cs url Rejected = (caches_match cs url, cs)"
  by (simp add: fetch_listener_def network_first_def cache_lookup_put_same cache_lookup_put_other)

theorem data_file_response_always_cached_witness:
  "isDataFile history_url \<and> isDataFile cdn_url
   \<and> \<not> starts_with cdn_url example_origin
   \<and> cache_lookup (example_caches CACHE_NAME) CACHE_NAME history_url = Some old_copy
   \<and> fst (fetch_listener example_origin index_url_example (example_caches CACHE_NAME)
            history_url (Fulfilled not_found)) = Some not_found
   \<and> cache_lookup (snd (fetch_listener example_origin index_url_example
            (example_caches CACHE_NAME) history_url (Fulfilled not_found)))
          CACHE_NAME history_url = Some not_found
   \<and> cache_lookup (snd (fetch_listener example_origin index_url_example
            (example_caches CACHE_NAME) cdn_url (Fulfilled fresh_copy)))
          CACHE_NAME cdn_url = Some fresh_copy"
proof -
  have a: "isDataFile history_url"
    by code_simp
  have b: "isDataFile cdn_url"
    by code_simp
  have c: "\<not> starts_with cdn_url example_origin"
    by code_simp
  have d: "cache_lookup (example_caches CACHE_NAME) CACHE_NAME history_url = Some old_copy"
    by (simp add: example_caches_def cache_lookup_def)
  show ?thesis
    using a b c d
      data_file_response_always_cached [OF a, of example_origin index_url_example
        "example_caches CACHE_NAME" not_found]
      data_file_response_always_cached [OF b, of example_origin index_url_example
        "example_caches CACHE_NAME" fresh_copy]
    by simp
qed

end
